theory Spec2Isabelle
  imports Complex_Main "HOL-Library.Multiset"
begin

section \<open>The browser state that js/common.js and js/docs.js work on\<close>

text \<open>
  The scripts only read and write the document through the DOM API, so the model is an
  explicit store: every element is a number (its identity, what a JavaScript variable
  holding the element refers to), \<open>node\<close> maps a number to the element's data, and
  \<open>elems\<close> lists the elements that are in the document, in tree order (the order
  \<open>getElementById\<close>, \<open>querySelector\<close> and \<open>querySelectorAll\<close> search in).
  An element's number is larger than its parent's (elements are numbered as they are
  created, a parent before its children); the walks up the tree below stop where a
  store does not respect that.

  \<open>localName\<close> is the tag in lower case, as selectors name it. \<open>el_id\<close> is the id attribute (\<open>''''\<close> when the element has none), \<open>classList\<close> the
  tokens of the class attribute in order, \<open>attributes\<close> the other attributes
  (onclick, data-page-id, aria-expanded, ...).
\<close>

record element =
  localName :: string
  el_id :: string
  classList :: "string list"
  attributes :: "(string \<times> string) list"
  parentElement :: "nat option"
  scrollTop :: nat

record page =
  elems :: "nat list"
  node :: "nat \<Rightarrow> element"
  documentElement :: nat
  localStorage :: "(string \<times> string) list"
  storageFailure :: "string option"
  innerWidth :: nat
  scrollX :: nat
  scrollY :: nat
  defaultPrevented :: bool

subsection \<open>DOMTokenList: classList.contains, add, remove\<close>

definition token_add :: "string \<Rightarrow> string list \<Rightarrow> string list" where
  "token_add c cs = (if c \<in> set cs then cs else cs @ [c])"

definition token_remove :: "string \<Rightarrow> string list \<Rightarrow> string list" where
  "token_remove c cs = filter (\<lambda>x. x \<noteq> c) cs"

definition contains :: "page \<Rightarrow> nat \<Rightarrow> string \<Rightarrow> bool" where
  "contains s a c = (c \<in> set (classList (node s a)))"

definition classList_add :: "string \<Rightarrow> nat \<Rightarrow> page \<Rightarrow> page" where
  "classList_add c a s =
     s\<lparr>node := (node s)(a := (node s a)\<lparr>classList := token_add c (classList (node s a))\<rparr>)\<rparr>"

definition classList_remove :: "string \<Rightarrow> nat \<Rightarrow> page \<Rightarrow> page" where
  "classList_remove c a s =
     s\<lparr>node := (node s)(a := (node s a)\<lparr>classList := token_remove c (classList (node s a))\<rparr>)\<rparr>"

subsection \<open>Attributes, storage\<close>

fun assoc_set :: "string \<Rightarrow> string \<Rightarrow> (string \<times> string) list \<Rightarrow> (string \<times> string) list" where
  "assoc_set k v [] = [(k, v)]"
| "assoc_set k v ((k', v') # kvs) =
     (if k' = k then (k, v) # kvs else (k', v') # assoc_set k v kvs)"

definition getAttribute :: "page \<Rightarrow> nat \<Rightarrow> string \<Rightarrow> string option" where
  "getAttribute s a k = map_of (attributes (node s a)) k"

definition setAttribute :: "string \<Rightarrow> string \<Rightarrow> nat \<Rightarrow> page \<Rightarrow> page" where
  "setAttribute k v a s =
     s\<lparr>node := (node s)(a := (node s a)\<lparr>attributes := assoc_set k v (attributes (node s a))\<rparr>)\<rparr>"

text \<open>
  A call either returns or throws; the browser keeps the changes made before a throw, so
  the result of a function that can throw is the completion together with the state.
\<close>

datatype completion = Returned | Threw string

text \<open>
  \<open>localStorage\<close> is the list of the stored entries. \<open>localStorage.setItem\<close> throws
  when the browser refuses the write (\<open>QuotaExceededError\<close> when the storage is full,
  \<open>SecurityError\<close> when it is blocked): \<open>storageFailure\<close> is that exception, \<open>None\<close>
  when the storage takes the entry.
\<close>

definition getItem :: "page \<Rightarrow> string \<Rightarrow> string option" where
  "getItem s k = map_of (localStorage s) k"

definition setItem :: "string \<Rightarrow> string \<Rightarrow> page \<Rightarrow> completion \<times> page" where
  "setItem k v s =
     (case storageFailure s of
        Some e \<Rightarrow> (Threw e, s)
      | None \<Rightarrow> (Returned, s\<lparr>localStorage := assoc_set k v (localStorage s)\<rparr>))"

subsection \<open>Lookups\<close>

text \<open>
  \<open>document.getElementById\<close>: the first element in tree order with that id; an element
  without an id is never found. \<open>querySelectorAll('.c')\<close> is the static list of the
  elements with class \<open>c\<close>, in tree order.
\<close>

definition getElementById :: "page \<Rightarrow> string \<Rightarrow> nat option" where
  "getElementById s i =
     (if i = [] then None else find (\<lambda>a. el_id (node s a) = i) (elems s))"

definition querySelectorAll_class :: "page \<Rightarrow> string \<Rightarrow> nat list" where
  "querySelectorAll_class s c = filter (\<lambda>a. contains s a c) (elems s)"

section \<open>js/common.js: dark mode\<close>

text \<open>
  \<open>updateDarkModeIcons\<close>: both icons are looked up first; only when both exist is one
  hidden and the other shown.
\<close>

definition updateDarkModeIcons :: "page \<Rightarrow> page" where
  "updateDarkModeIcons s =
     (let themeIconLight = getElementById s ''theme-icon-light'';
          themeIconDark = getElementById s ''theme-icon-dark'';
          isDark = contains s (documentElement s) ''dark''
      in case (themeIconLight, themeIconDark) of
           (Some l, Some d) \<Rightarrow>
             (if isDark
              then classList_remove ''hidden'' d (classList_add ''hidden'' l s)
              else classList_add ''hidden'' d (classList_remove ''hidden'' l s))
         | _ \<Rightarrow> s)"

text \<open>
  \<open>toggleDarkMode\<close> changes the class of the root element first and writes the theme
  after it, with no handler around the write: when \<open>setItem\<close> throws, the class stays
  changed and \<open>updateDarkModeIcons\<close> is not reached.
\<close>

definition toggleDarkMode :: "page \<Rightarrow> completion \<times> page" where
  "toggleDarkMode s =
     (let html = documentElement s;
          isDark = contains s html ''dark''
      in case (if isDark
               then setItem ''theme'' ''light'' (classList_remove ''dark'' html s)
               else setItem ''theme'' ''dark'' (classList_add ''dark'' html s)) of
           (Threw e, s1) \<Rightarrow> (Threw e, s1)
         | (Returned, s1) \<Rightarrow> (Returned, updateDarkModeIcons s1))"

section \<open>js/common.js: dropdowns\<close>

definition closeAllDropdowns :: "page \<Rightarrow> page" where
  "closeAllDropdowns s =
     fold (classList_add ''hidden'') (querySelectorAll_class s ''dropdown-menu'') s"

definition toggleDropdown :: "string \<Rightarrow> page \<Rightarrow> page" where
  "toggleDropdown dropdownId s =
     (case getElementById s dropdownId of
        None \<Rightarrow> s
      | Some dropdown \<Rightarrow>
          (let isOpen = \<not> contains s dropdown ''hidden'';
               s1 = closeAllDropdowns s
           in if \<not> isOpen then classList_remove ''hidden'' dropdown s1 else s1))"

section \<open>js/common.js: the mobile menu\<close>

text \<open>
  \<open>ancestor_of s b a\<close>: \<open>b\<close> is a proper ancestor of \<open>a\<close>. \<open>closest P s a\<close> is
  \<open>a.closest(selector)\<close> for a selector that tests one element: \<open>a\<close> itself or its
  nearest ancestor satisfying \<open>P\<close>.
\<close>

fun ancestor_of :: "page \<Rightarrow> nat \<Rightarrow> nat \<Rightarrow> bool" where
  "ancestor_of s b a =
     (case parentElement (node s a) of
        None \<Rightarrow> False
      | Some p \<Rightarrow> if p = b then True else if p < a then ancestor_of s b p else False)"

fun closest :: "(element \<Rightarrow> bool) \<Rightarrow> page \<Rightarrow> nat \<Rightarrow> nat option" where
  "closest P s a =
     (if P (node s a) then Some a
      else case parentElement (node s a) of
             None \<Rightarrow> None
           | Some p \<Rightarrow> if p < a then closest P s p else None)"

declare ancestor_of.simps [simp del] closest.simps [simp del]

text \<open>
  Both values assigned to \<open>mobileMenuBtn.innerHTML\<close> are one \<open>svg\<close> element holding one
  \<open>path\<close> element; they differ in the path data only. Assigning \<open>innerHTML\<close> removes
  the element's descendants from the document and puts the parsed elements in their
  place, as new elements.
\<close>

definition svg_icon :: element where
  "svg_icon = \<lparr>localName = ''svg'', el_id = [], classList = [''w-6'', ''h-6''],
     attributes = [(''fill'', ''none''), (''stroke'', ''currentColor''),
       (''viewBox'', ''0 0 24 24''), (''xmlns'', ''http://www.w3.org/2000/svg'')],
     parentElement = None, scrollTop = 0\<rparr>"

definition path_icon :: "string \<Rightarrow> element" where
  "path_icon d = \<lparr>localName = ''path'', el_id = [], classList = [],
     attributes = [(''stroke-linecap'', ''round''), (''stroke-linejoin'', ''round''),
       (''stroke-width'', ''2''), (''d'', d)],
     parentElement = None, scrollTop = 0\<rparr>"

definition fresh :: "page \<Rightarrow> nat" where
  "fresh s = Suc (fold max (elems s) (documentElement s))"

definition set_innerHTML_icon :: "nat \<Rightarrow> string \<Rightarrow> page \<Rightarrow> page" where
  "set_innerHTML_icon b d s =
     (let n1 = fresh s; n2 = Suc n1
      in s\<lparr>elems := concat (map (\<lambda>a. if a = b then [b, n1, n2]
                                      else if ancestor_of s b a then [] else [a]) (elems s)),
            node := (node s)(n1 := svg_icon\<lparr>parentElement := Some b\<rparr>,
                             n2 := (path_icon d)\<lparr>parentElement := Some n1\<rparr>)\<rparr>)"

text \<open>\<open>forceState\<close> is \<open>Some b\<close> for a boolean argument, \<open>None\<close> for anything else.\<close>

definition toggleMobileMenu :: "bool option \<Rightarrow> page \<Rightarrow> page" where
  "toggleMobileMenu forceState s =
     (let sidebar = getElementById s ''sidebar'';
          overlay = getElementById s ''overlay'';
          mobileMenuBtn = getElementById s ''mobile-menu-btn''
      in case sidebar of
           None \<Rightarrow> s
         | Some sb \<Rightarrow>
             (let open = (case forceState of
                            Some b \<Rightarrow> b
                          | None \<Rightarrow> contains s sb ''-translate-x-full'')
              in if open
                 then (let s1 = classList_add ''translate-x-0'' sb
                                  (classList_remove ''-translate-x-full'' sb s);
                           s2 = (case overlay of
                                   Some ov \<Rightarrow> classList_remove ''hidden'' ov s1
                                 | None \<Rightarrow> s1)
                       in case mobileMenuBtn of
                            Some b \<Rightarrow> set_innerHTML_icon b ''M6 18L18 6M6 6l12 12'' s2
                          | None \<Rightarrow> s2)
                 else (let s1 = classList_remove ''translate-x-0'' sb
                                  (classList_add ''-translate-x-full'' sb s);
                           s2 = (case overlay of
                                   Some ov \<Rightarrow> classList_add ''hidden'' ov s1
                                 | None \<Rightarrow> s1)
                       in case mobileMenuBtn of
                            Some b \<Rightarrow> set_innerHTML_icon b ''M4 6h16M4 12h16M4 18h16'' s2
                          | None \<Rightarrow> s2)))"

section \<open>js/docs.js: showPage\<close>

text \<open>
  The selectors that \<open>showPage\<close> builds from a value
  (\<open>.sidebar-link[data-page-id="..."]\<close>, \<open>button[onclick*="'...'"]\<close>) are read as the
  attribute tests they are for a value without a double quote or a backslash: equality,
  and containment of the quoted value.
\<close>

text \<open>
  The third argument: nothing, an element (the call at \<open>DOMContentLoaded\<close> passes the
  sidebar link, which has no \<open>preventDefault\<close>), or an event.
\<close>

datatype clicked = NoArgument | ElementArgument nat | EventArgument

text \<open>\<open>is_substring xs ys\<close>: \<open>xs\<close> occurs in \<open>ys\<close>, the test of \<open>[onclick*="..."]\<close>.\<close>

fun is_substring :: "string \<Rightarrow> string \<Rightarrow> bool" where
  "is_substring xs [] = (xs = [])"
| "is_substring xs (y # ys) = (take (length xs) (y # ys) = xs \<or> is_substring xs ys)"

text \<open>The selector \<open>div[id^="submenu-"]\<close>.\<close>

definition is_submenu_div :: "element \<Rightarrow> bool" where
  "is_submenu_div e = (localName e = ''div'' \<and> take 8 (el_id e) = ''submenu-'')"

text \<open>
  The blocks of \<open>showPage\<close>, one definition for each, named after the source's comments:
  "Hide all page content" (lines 4-7), "Show the target page" (lines 9-13), "Update active
  state in sidebar" (lines 15-18), "Find the corresponding link in the sidebar and activate
  it", with its submenu (lines 20-37; \<open>parentButton.querySelector('.submenu-chevron')\<close> is
  \<open>null\<close> for a button without a chevron, and reading \<open>classList\<close> of it throws),
  "Close mobile menu on navigation" (lines 39-42), "Scroll to top" (lines 47-49, throwing when
  there is no \<open>content-area\<close>) and "Prevent default link behavior" (lines 51-54).
\<close>

definition hideAllPages :: "page \<Rightarrow> page" where
  "hideAllPages s = fold (classList_add ''hidden'') (querySelectorAll_class s ''page-content'') s"

definition showTargetPage :: "string \<Rightarrow> page \<Rightarrow> page" where
  "showTargetPage pageId s =
     (case getElementById s pageId of
        Some targetPage \<Rightarrow> classList_remove ''hidden'' targetPage s
      | None \<Rightarrow> s)"

definition clearSidebarActive :: "page \<Rightarrow> page" where
  "clearSidebarActive s =
     fold (classList_remove ''sidebar-active'') (querySelectorAll_class s ''sidebar-link'') s"

definition activateSidebarLink :: "string \<Rightarrow> page \<Rightarrow> completion \<times> page" where
  "activateSidebarLink pageId s =
     (case find (\<lambda>a. contains s a ''sidebar-link'' \<and>
                      getAttribute s a ''data-page-id'' = Some pageId) (elems s) of
        None \<Rightarrow> (Returned, s)
      | Some activeSidebarLink \<Rightarrow>
          (let s1 = classList_add ''sidebar-active'' activeSidebarLink s
           in case closest is_submenu_div s1 activeSidebarLink of
                None \<Rightarrow> (Returned, s1)
              | Some submenu \<Rightarrow>
                  if contains s1 submenu ''hidden''
                  then (case find (\<lambda>a. localName (node s1 a) = ''button'' \<and>
                               (case getAttribute s1 a ''onclick'' of
                                  None \<Rightarrow> False
                                | Some v \<Rightarrow> is_substring
                                    ([CHR 0x27] @ el_id (node s1 submenu) @ [CHR 0x27]) v))
                             (elems s1) of
                          None \<Rightarrow> (Returned, s1)
                        | Some parentButton \<Rightarrow>
                            (let s2 = classList_add ''sidebar-active'' parentButton
                                        (classList_remove ''hidden'' submenu s1)
                             in case find (\<lambda>a. ancestor_of s2 parentButton a \<and>
                                              contains s2 a ''submenu-chevron'') (elems s2) of
                                  None \<Rightarrow> (Threw ''TypeError'', s2)
                                | Some chevron \<Rightarrow>
                                    (Returned,
                                     setAttribute ''aria-expanded'' ''true'' parentButton
                                       (classList_add ''rotate-180'' chevron s2))))
                  else (Returned, s1)))"

definition closeMobileMenuOnNavigation :: "page \<Rightarrow> page" where
  "closeMobileMenuOnNavigation s =
     (if innerWidth s < 768 then toggleMobileMenu (Some False) s else s)"

definition scrollToTop :: "page \<Rightarrow> completion \<times> page" where
  "scrollToTop s =
     (case getElementById s ''content-area'' of
        None \<Rightarrow> (Threw ''TypeError'', s)
      | Some contentArea \<Rightarrow>
          (Returned,
           s\<lparr>node := (node s)(contentArea := (node s contentArea)\<lparr>scrollTop := 0\<rparr>),
             scrollX := 0, scrollY := 0\<rparr>))"

definition preventDefault :: "clicked \<Rightarrow> page \<Rightarrow> page" where
  "preventDefault clickedElement s =
     (case clickedElement of
        EventArgument \<Rightarrow> s\<lparr>defaultPrevented := True\<rparr>
      | _ \<Rightarrow> s)"

text \<open>
  \<open>showPage\<close>, in the order of the source: hide all pages, show the target, update the
  sidebar, close the mobile menu on a narrow window, close the dropdowns, scroll to the
  top, prevent the default action of the click. \<open>navId\<close> is not used by the source.
\<close>

definition showPage :: "string \<Rightarrow> string \<Rightarrow> clicked \<Rightarrow> page \<Rightarrow> completion \<times> page" where
  "showPage pageId navId clickedElement s =
     (case activateSidebarLink pageId
             (clearSidebarActive (showTargetPage pageId (hideAllPages s))) of
        (Threw e, s4) \<Rightarrow> (Threw e, s4)
      | (Returned, s4) \<Rightarrow>
          (case scrollToTop (closeAllDropdowns (closeMobileMenuOnNavigation s4)) of
             (Threw e, s7) \<Rightarrow> (Threw e, s7)
           | (Returned, s7) \<Rightarrow> (Returned, preventDefault clickedElement s7)))"

text \<open>
  Two intermediate states of \<open>showPage\<close>, named for the proofs: after the sidebar block
  (whether or not it threw), and after the mobile menu and the dropdowns were closed.
\<close>

definition afterSidebar :: "string \<Rightarrow> page \<Rightarrow> page" where
  "afterSidebar pageId s =
     snd (activateSidebarLink pageId (clearSidebarActive (showTargetPage pageId (hideAllPages s))))"

definition afterDropdowns :: "page \<Rightarrow> page" where
  "afterDropdowns s = closeAllDropdowns (closeMobileMenuOnNavigation s)"

section \<open>Example documents\<close>

text \<open>
  \<open>docs_page w\<close> is a docs page of the site in a window \<open>w\<close> pixels wide: a sidebar with
  one submenu of two links, the overlay and the menu button of the mobile layout, two
  pages in the content area, two dropdown menus and the two theme icons. The element
  with number \<open>n\<close> is the \<open>n\<close>-th of the list. \<open>full_storage_page\<close> is the same page in
  a browser whose storage is full.
\<close>

definition blank :: element where
  "blank = \<lparr>localName = ''div'', el_id = [], classList = [], attributes = [],
     parentElement = None, scrollTop = 0\<rparr>"

definition mk_page :: "nat \<Rightarrow> element list \<Rightarrow> page" where
  "mk_page w es = \<lparr>elems = [0..<length es],
     node = (\<lambda>a. if a < length es then es ! a else blank),
     documentElement = 0, localStorage = [], storageFailure = None, innerWidth = w, scrollX = 0, scrollY = 40,
     defaultPrevented = False\<rparr>"

definition docs_page :: "nat \<Rightarrow> page" where
  "docs_page w = mk_page w
     [blank\<lparr>localName := ''html''\<rparr>,
      blank\<lparr>localName := ''aside'', el_id := ''sidebar'', classList := [''translate-x-0''],
             parentElement := Some 0\<rparr>,
      blank\<lparr>localName := ''button'', parentElement := Some 1,
             attributes := [(''onclick'',
               ''toggleSidebarMenu('' @ [CHR 0x27] @ ''submenu-guide'' @ [CHR 0x27] @ '', this)'')]\<rparr>,
      blank\<lparr>localName := ''span'', classList := [''submenu-chevron''], parentElement := Some 2\<rparr>,
      blank\<lparr>el_id := ''submenu-guide'', classList := [''hidden''], parentElement := Some 1\<rparr>,
      blank\<lparr>localName := ''a'', classList := [''sidebar-link''], parentElement := Some 4,
             attributes := [(''data-page-id'', ''page-installation'')]\<rparr>,
      blank\<lparr>localName := ''a'', classList := [''sidebar-link'', ''sidebar-active''],
             parentElement := Some 4, attributes := [(''data-page-id'', ''page-usage'')]\<rparr>,
      blank\<lparr>el_id := ''overlay'', parentElement := Some 0\<rparr>,
      blank\<lparr>localName := ''button'', el_id := ''mobile-menu-btn'', parentElement := Some 0\<rparr>,
      blank\<lparr>localName := ''svg'', parentElement := Some 8\<rparr>,
      blank\<lparr>localName := ''main'', el_id := ''content-area'', parentElement := Some 0,
             scrollTop := 300\<rparr>,
      blank\<lparr>el_id := ''page-installation'', classList := [''page-content'', ''hidden''],
             parentElement := Some 10\<rparr>,
      blank\<lparr>el_id := ''page-usage'', classList := [''page-content''], parentElement := Some 10\<rparr>,
      blank\<lparr>el_id := ''menu-tools'', classList := [''dropdown-menu''], parentElement := Some 0\<rparr>,
      blank\<lparr>el_id := ''menu-help'', classList := [''dropdown-menu'', ''hidden''],
             parentElement := Some 0\<rparr>,
      blank\<lparr>localName := ''svg'', el_id := ''theme-icon-light'', parentElement := Some 0\<rparr>,
      blank\<lparr>localName := ''svg'', el_id := ''theme-icon-dark'', classList := [''hidden''],
             parentElement := Some 0\<rparr>]"

definition full_storage_page :: page where
  "full_storage_page = (docs_page 1024)\<lparr>storageFailure := Some ''QuotaExceededError''\<rparr>"

definition menu_page_doc :: page where
  "menu_page_doc = mk_page 1024
     [blank\<lparr>localName := ''html''\<rparr>,
      blank\<lparr>localName := ''main'', el_id := ''content-area'', parentElement := Some 0\<rparr>,
      blank\<lparr>el_id := ''page-about'', classList := [''page-content'', ''dropdown-menu'', ''hidden''],
             parentElement := Some 1\<rparr>]"

definition submenu_page_doc :: page where
  "submenu_page_doc = mk_page 1024
     [blank\<lparr>localName := ''html''\<rparr>,
      blank\<lparr>localName := ''main'', el_id := ''content-area'', parentElement := Some 0\<rparr>,
      blank\<lparr>localName := ''button'', parentElement := Some 1,
             attributes := [(''onclick'',
               ''toggleSidebarMenu('' @ [CHR 0x27] @ ''submenu-guide'' @ [CHR 0x27] @ '', this)'')]\<rparr>,
      blank\<lparr>localName := ''span'', classList := [''submenu-chevron''], parentElement := Some 2\<rparr>,
      blank\<lparr>el_id := ''submenu-guide'', classList := [''page-content'', ''hidden''],
             parentElement := Some 1\<rparr>,
      blank\<lparr>localName := ''a'', classList := [''sidebar-link''], parentElement := Some 4,
             attributes := [(''data-page-id'', ''page-installation'')]\<rparr>,
      blank\<lparr>el_id := ''page-installation'', classList := [''page-content'', ''hidden''],
             parentElement := Some 1\<rparr>]"

section \<open>The annotation pipeline, from its specification\<close>

text \<open>
  The repository holds the documentation site of the pipeline: \<open>TUTORIAL.md\<close> describes
  the scripts \<open>db_search.py\<close>, \<open>adduct_predict.py\<close>, \<open>class_predict.py\<close> and
  \<open>predict_plsf.py\<close>, whose code is not part of it. Every definition of this section is
  therefore written from the specification, and says so. Masses, tolerances, similarities
  and confidences are real numbers here; what the statistical models, the rule table and
  the similarity formulas compute is a parameter.
\<close>

subsection \<open>Chain compositions and their canonical order\<close>

text \<open>
  Modelled from the spec: the chain pairs of a ChainComposition (the Python code of
  \<open>predict_plsf.py\<close> is missing), "(carbon_count: int \<ge> 0, double_bond_count: int \<ge> 0)
  pairs".
\<close>

type_synonym chain = "nat \<times> nat"

text \<open>
  Modelled from the spec: the order of a canonical composition (the sorting code is
  missing), "canonical order = descending carbon_count, ties broken by descending
  double_bond_count": \<open>chain_ge a b\<close> says that \<open>a\<close> may stand before \<open>b\<close>.
\<close>

definition chain_ge :: "chain \<Rightarrow> chain \<Rightarrow> bool" where
  "chain_ge a b = (fst a > fst b \<or> (fst a = fst b \<and> snd a \<ge> snd b))"

text \<open>
  Modelled from the spec: one step of the canonicalization (the sorting code is missing),
  putting a chain before the first chain it may stand before.
\<close>

fun insert_chain :: "chain \<Rightarrow> chain list \<Rightarrow> chain list" where
  "insert_chain x [] = [x]"
| "insert_chain x (y # ys) = (if chain_ge x y then x # y # ys else y # insert_chain x ys)"

text \<open>
  Modelled from the spec: the canonicalization of a ChainComposition (the sorting code is
  missing), "every assignment is canonicalized before being reported", as the sort into
  the canonical order.
\<close>

fun canonicalize :: "chain list \<Rightarrow> chain list" where
  "canonicalize [] = []"
| "canonicalize (x # xs) = insert_chain x (canonicalize xs)"

text \<open>
  Modelled from the spec: what "already canonical" means (no code for it), the chains
  standing in canonical order.
\<close>

definition is_canonical :: "chain list \<Rightarrow> bool" where
  "is_canonical cs = sorted_wrt chain_ge cs"

subsection \<open>The name\<close>

text \<open>
  Modelled from the spec: the decimal numeral of a count in the name (the formatting code
  of \<open>predict_plsf.py\<close> is missing), as in "PC 16:0_18:1".
\<close>

fun show_nat :: "nat \<Rightarrow> string" where
  "show_nat n =
     (if n < 10 then [char_of (48 + n)] else show_nat (n div 10) @ [char_of (48 + n mod 10)])"

declare show_nat.simps [simp del]

text \<open>
  Modelled from the spec: one chain of the name (the formatting code is missing),
  "{C}:{DB}".
\<close>

definition format_chain :: "chain \<Rightarrow> string" where
  "format_chain cd = show_nat (fst cd) @ '':'' @ show_nat (snd cd)"

text \<open>
  Modelled from the spec: the chains of the name joined (the formatting code is missing),
  "{C1}:{DB1}_{C2}:{DB2}_...".
\<close>

fun join_underscore :: "string list \<Rightarrow> string" where
  "join_underscore [] = []"
| "join_underscore [x] = x"
| "join_underscore (x # y # ys) = x @ ''_'' @ join_underscore (y # ys)"

text \<open>
  Modelled from the spec: the chains that are displayed (the formatting code is missing),
  "chains with (0,0) represent an absent slot and are display-omitted".
\<close>

definition displayed_chains :: "chain list \<Rightarrow> chain list" where
  "displayed_chains cs = filter (\<lambda>cd. cd \<noteq> (0, 0)) cs"

text \<open>
  Modelled from the spec: the name of the Aggregator/Namer (the code of
  \<open>predict_plsf.py\<close> that builds the \<open>name\<close> column is missing), "Name = "{class}
  {C1}:{DB1}_{C2}:{DB2}_..." built from the top-ranked canonical chain composition, with
  (0,0) chains omitted from the string": the chains of the composition it is given, in the
  order they have there.
\<close>

definition build_name :: "string \<Rightarrow> chain list \<Rightarrow> string" where
  "build_name cls cs = cls @ '' '' @ join_underscore (map format_chain (displayed_chains cs))"

subsection \<open>The aggregated confidence\<close>

text \<open>
  Modelled from the spec: the running mean behind \<open>pred_confidence\<close> (the code is missing),
  a sum and a count of the components that are present.
\<close>

fun mean_present :: "real option list \<Rightarrow> real \<Rightarrow> nat \<Rightarrow> real option" where
  "mean_present [] acc n = (if n = 0 then None else Some (acc / real n))"
| "mean_present (None # xs) acc n = mean_present xs acc n"
| "mean_present (Some x # xs) acc n = mean_present xs (acc + x) (Suc n)"

text \<open>
  Modelled from the spec: \<open>pred_confidence\<close> of the Aggregator (the code of
  \<open>predict_plsf.py\<close> that fills the column is missing), "arithmetic mean of whichever of
  {adduct_confidence, class_confidence, top-rank chain confidence} are present (missing
  components excluded, not treated as zero); if none are present, pred_confidence is
  missing".
\<close>

definition pred_confidence :: "real option \<Rightarrow> real option \<Rightarrow> real option \<Rightarrow> real option" where
  "pred_confidence adduct_confidence class_confidence chain_confidence =
     mean_present [adduct_confidence, class_confidence, chain_confidence] 0 0"


subsection \<open>Features, references and the database search\<close>

text \<open>Modelled from the spec: the ion mode of a Feature (its code is missing), "positive | negative".\<close>

datatype ion_mode = Positive | Negative

text \<open>
  Modelled from the spec: an MS2 spectrum (its code is missing), "ordered sequence of (m/z,
  intensity) pairs".
\<close>

type_synonym spectrum = "(real \<times> real) list"

text \<open>
  Modelled from the spec: a Feature (the input code of the scripts is missing). \<open>ms2\<close> is
  \<open>None\<close> for a row whose MS2 text does not parse; \<open>fragment_vector\<close> lists the nominal
  fragment m/z that are present.
\<close>

record feature =
  feature_id :: string
  precursor_mz :: real
  ion_mode :: ion_mode
  adduct :: string
  ms2 :: "spectrum option"
  fragment_vector :: "nat list"

text \<open>
  Modelled from the spec: a ReferenceEntry (the database code is missing), "name, molecular
  formula, class label, category label, neutral monoisotopic mass, per-adduct theoretical
  precursor m/z, reference MS2 spectrum".
\<close>

record reference_entry =
  ref_name :: string
  formula :: string
  class_label :: string
  category_label :: string
  neutral_mass :: real
  adduct_mz :: "(string \<times> real) list"
  ref_spectrum :: spectrum

text \<open>Modelled from the spec: the method selector of the Spectral Matcher (its code is missing).\<close>

datatype similarity_method =
  dot_product | weighted_dot_product | entropy_similarity | unweighted_entropy_similarity

text \<open>
  Modelled from the spec: the options of \<open>db_search.py\<close> (the script is missing):
  \<open>MS1_tol\<close>, \<open>is_ppm\<close>, \<open>MS2_tol\<close>, the scoring method, \<open>MS2_threshold\<close>.
\<close>

record search_config =
  MS1_tol :: real
  is_ppm :: bool
  MS2_tol :: real
  scoring :: similarity_method
  MS2_threshold :: real

text \<open>
  Modelled from the spec: a MatchResult (its code is missing), "feature id, reference id,
  mass_diff_ppm (signed), similarity score, accepted (bool)".
\<close>

record match_result =
  mr_feature :: string
  mr_reference :: reference_entry
  mass_diff_ppm :: real
  similarity :: real
  accepted :: bool

text \<open>
  Modelled from the spec: what the search reports for one feature (the code of
  \<open>db_search.py\<close> is missing): a match, no match, or a spectrum that did not parse.
\<close>

datatype search_outcome = Matched match_result | Unmatched | IngestionError

text \<open>
  Modelled from the spec: the Spectral Matcher as the search uses it (its code is missing
  and its formulas are left open): method, MS2 tolerance, query and reference spectrum
  give a score.
\<close>

type_synonym matcher = "similarity_method \<Rightarrow> real \<Rightarrow> spectrum \<Rightarrow> spectrum \<Rightarrow> real"

text \<open>
  Modelled from the spec: the MS1 filter of \<open>db_search.py\<close> (missing), "ppm comparison uses
  |\<Delta>|/reference_mz * 1e6 \<le> tol; Da comparison uses |\<Delta>| \<le> tol".
\<close>

definition within_MS1 :: "search_config \<Rightarrow> real \<Rightarrow> real \<Rightarrow> bool" where
  "within_MS1 cfg feature_mz reference_mz =
     (if is_ppm cfg
      then \<bar>feature_mz - reference_mz\<bar> / reference_mz * 1000000 \<le> MS1_tol cfg
      else \<bar>feature_mz - reference_mz\<bar> \<le> MS1_tol cfg)"

text \<open>
  Modelled from the spec: the candidates of a feature (the query code of \<open>db_search.py\<close> is
  missing), "those whose theoretical precursor m/z for the feature's adduct is within MS1
  tolerance of the feature's precursor m/z"; each with that m/z.
\<close>

definition candidates :: "search_config \<Rightarrow> reference_entry list \<Rightarrow> feature \<Rightarrow> (reference_entry \<times> real) list" where
  "candidates cfg store f =
     concat (map (\<lambda>r. case map_of (adduct_mz r) (adduct f) of
                         None \<Rightarrow> []
                       | Some mz \<Rightarrow> if within_MS1 cfg (precursor_mz f) mz then [(r, mz)] else [])
                 store)"

text \<open>
  Modelled from the spec: the MatchResult of one candidate (the scoring code of
  \<open>db_search.py\<close> is missing), "for each candidate, compute similarity via 4.1 using MS2
  tolerance", with the signed mass difference in ppm.
\<close>

definition score :: "matcher \<Rightarrow> search_config \<Rightarrow> feature \<Rightarrow> spectrum \<Rightarrow> reference_entry \<times> real \<Rightarrow> match_result" where
  "score M cfg f q c =
     \<lparr>mr_feature = feature_id f, mr_reference = fst c,
      mass_diff_ppm = (precursor_mz f - snd c) / snd c * 1000000,
      similarity = M (scoring cfg) (MS2_tol cfg) q (ref_spectrum (fst c)),
      accepted = False\<rparr>"

text \<open>Modelled from the spec: the scored candidates of a feature (code missing), in store order.\<close>

definition scored :: "matcher \<Rightarrow> search_config \<Rightarrow> reference_entry list \<Rightarrow> feature \<Rightarrow> spectrum \<Rightarrow> match_result list" where
  "scored M cfg store f q = map (score M cfg f q) (candidates cfg store f)"

text \<open>
  Modelled from the spec: when a candidate replaces the best one so far (the selection code
  of \<open>db_search.py\<close> is missing), "the candidate with the highest similarity; tie-break by
  smallest absolute mass_diff_ppm".
\<close>

definition better :: "match_result \<Rightarrow> match_result \<Rightarrow> bool" where
  "better new old =
     (similarity old < similarity new \<or>
      (similarity new = similarity old \<and> \<bar>mass_diff_ppm new\<bar> < \<bar>mass_diff_ppm old\<bar>))"

text \<open>Modelled from the spec: the scan for the best candidate (the selection code is missing).\<close>

fun best_of :: "match_result \<Rightarrow> match_result list \<Rightarrow> match_result" where
  "best_of b [] = b"
| "best_of b (m # ms) = best_of (if better m b then m else b) ms"

text \<open>
  Modelled from the spec: the search for one feature (the code of \<open>db_search.py\<close> is
  missing), "accept the candidate with the highest similarity if similarity \<ge>
  MS2_threshold"; "a feature with an unparseable spectrum is excluded from matching and
  reported as an ingestion error".
\<close>

definition search_feature :: "matcher \<Rightarrow> search_config \<Rightarrow> reference_entry list \<Rightarrow> feature \<Rightarrow> search_outcome" where
  "search_feature M cfg store f =
     (case ms2 f of
        None \<Rightarrow> IngestionError
      | Some q \<Rightarrow>
          (case scored M cfg store f q of
             [] \<Rightarrow> Unmatched
           | m # ms \<Rightarrow>
               (let b = best_of m ms
                in if MS2_threshold cfg \<le> similarity b
                   then Matched (b\<lparr>accepted := True\<rparr>) else Unmatched)))"

text \<open>
  Modelled from the spec: the output of the search (the writing code of \<open>db_search.py\<close> is
  missing): the matched features with their match (\<open>annotated_df.csv\<close>), the unmatched
  ones (\<open>dark_lipid.csv\<close>), and the rows reported as ingestion errors.
\<close>

record search_output =
  matched :: "(feature \<times> match_result) list"
  unmatched :: "feature list"
  ingestion_errors :: "feature list"

text \<open>
  Modelled from the spec: the Database Search Engine over a feature set (the code of
  \<open>db_search.py\<close> is missing), "matched features ... and unmatched features (including
  those with no candidate within MS1 tolerance, or best similarity below threshold)".
\<close>

definition db_search :: "matcher \<Rightarrow> search_config \<Rightarrow> reference_entry list \<Rightarrow> feature list \<Rightarrow> search_output" where
  "db_search M cfg store fs =
     \<lparr>matched = concat (map (\<lambda>f. case search_feature M cfg store f of
                                    Matched m \<Rightarrow> [(f, m)] | _ \<Rightarrow> []) fs),
      unmatched = filter (\<lambda>f. search_feature M cfg store f = Unmatched) fs,
      ingestion_errors = filter (\<lambda>f. search_feature M cfg store f = IngestionError) fs\<rparr>"

subsection \<open>The mass-balance solver for one chain\<close>

text \<open>
  Modelled from the spec: the mass constants of the solver (the code and the constants of
  \<open>predict_plsf.py\<close> are missing): the backbone mass of a class, the mass of a chain, the
  bounds of the "small integer (C, DB) pairs", the configured tolerance.
\<close>

record mass_constants =
  backbone_mass :: "string \<Rightarrow> real"
  chain_mass :: "nat \<Rightarrow> nat \<Rightarrow> real"
  max_carbon :: nat
  max_double_bond :: nat
  tolerance :: real

text \<open>
  Modelled from the spec: the residual mass error of a pair (the solver code is missing),
  from "neutral mass = class backbone mass + chain mass(C, DB)".
\<close>

definition residual :: "mass_constants \<Rightarrow> string \<Rightarrow> real \<Rightarrow> chain \<Rightarrow> real" where
  "residual K cls neutral cd =
     \<bar>neutral - (backbone_mass K cls + chain_mass K (fst cd) (snd cd))\<bar>"

text \<open>Modelled from the spec: the "small integer (C, DB) pairs" searched (the solver code is missing).\<close>

definition search_space :: "mass_constants \<Rightarrow> chain list" where
  "search_space K =
     concat (map (\<lambda>c. map (\<lambda>d. (c, d)) [0..<Suc (max_double_bond K)]) [0..<Suc (max_carbon K)])"

text \<open>
  Modelled from the spec: the scan for the pair of least residual (the solver code is
  missing); the first such pair is kept.
\<close>

fun closest_pair :: "(chain \<Rightarrow> real) \<Rightarrow> chain \<Rightarrow> chain list \<Rightarrow> chain" where
  "closest_pair res b [] = b"
| "closest_pair res b (p # ps) = closest_pair res (if res p < res b then p else b) ps"

text \<open>
  Modelled from the spec: the solver for \<open>num_chain = 1\<close> (the code of \<open>predict_plsf.py\<close> is
  missing), "search over small integer (C, DB) pairs for the one minimizing residual mass
  error subject to residual \<le> configured tolerance".
\<close>

definition solve_single_chain :: "mass_constants \<Rightarrow> string \<Rightarrow> real \<Rightarrow> chain option" where
  "solve_single_chain K cls neutral =
     (case search_space K of
        [] \<Rightarrow> None
      | p # ps \<Rightarrow>
          (let b = closest_pair (residual K cls neutral) p ps
           in if residual K cls neutral b \<le> tolerance K then Some b else None))"

subsection \<open>Class decision, chain ranks and the annotation record\<close>

text \<open>
  Modelled from the spec: the source of a ClassDecision (the code of \<open>class_predict.py\<close> is
  missing), "source \<in> {rule-based, model-based, invalid}".
\<close>

datatype decision_source = RuleBased | ModelBased | Invalid

text \<open>
  Modelled from the spec: a ClassDecision (the code of \<open>class_predict.py\<close> is missing),
  "predicted class, category, num_chain (1-4), confidence, source"; a missing field is
  \<open>None\<close>.
\<close>

record class_decision =
  predicted_class :: "string option"
  category :: "string option"
  num_chain :: "nat option"
  confidence :: "real option"
  source :: decision_source

text \<open>
  Modelled from the spec: one ranked chain composition with its confidence (the code of
  \<open>predict_plsf.py\<close> is missing); the solver gives no confidence.
\<close>

record rank =
  composition :: "chain list"
  rank_confidence :: "real option"

text \<open>Modelled from the spec: the error kinds of section 7 that a row can meet (their code is missing).\<close>

datatype pipeline_error = SpectrumParseError | UnknownAdductError | UnknownClassError

text \<open>
  Modelled from the spec: the context that is passed in (the loading code is missing): the
  known adducts, the static table class to (category, chain count), the rules-off mode, the
  fixed confidence of a rule decision, the two candidate-class sets of the rule table, the
  class classifier, the neutral mass of a feature, the mass constants and the ranking
  model.
\<close>

record pipeline_context =
  known_adducts :: "string list"
  class_table :: "(string \<times> string \<times> nat) list"
  rules_off :: bool
  rule_confidence :: real
  classes_mz :: "feature \<Rightarrow> string list"
  classes_ms2 :: "feature \<Rightarrow> string list"
  class_model :: "feature \<Rightarrow> string \<times> real"
  neutral_mass_of :: "feature \<Rightarrow> real"
  constants :: mass_constants
  ranking_model :: "string \<Rightarrow> nat \<Rightarrow> feature \<Rightarrow> (chain list \<times> real) list"

text \<open>
  Modelled from the spec: the invalid decision (the code of \<open>class_predict.py\<close> is
  missing), "the decision is marked invalid and downstream fields are missing rather than
  guessed".
\<close>

definition invalid_decision :: class_decision where
  "invalid_decision = \<lparr>predicted_class = None, category = None, num_chain = None,
     confidence = None, source = Invalid\<rparr>"

text \<open>
  Modelled from the spec: Stage A (the rule code of \<open>class_predict.py\<close> is missing), "if
  the intersection of the two sets is exactly one class, that class is the rule-based
  decision; otherwise Stage A is inconclusive".
\<close>

definition stage_a :: "pipeline_context \<Rightarrow> feature \<Rightarrow> string option" where
  "stage_a ctx f =
     (case filter (\<lambda>c. c \<in> set (classes_ms2 ctx f)) (remdups (classes_mz ctx f)) of
        [c] \<Rightarrow> Some c
      | _ \<Rightarrow> None)"

text \<open>
  Modelled from the spec: the two stages (the code of \<open>class_predict.py\<close> is missing):
  the rule decision when the rules are on and conclusive, the classifier otherwise.
\<close>

definition stage_class :: "pipeline_context \<Rightarrow> feature \<Rightarrow> string \<times> real \<times> decision_source" where
  "stage_class ctx f =
     (case (if rules_off ctx then None else stage_a ctx f) of
        Some c \<Rightarrow> (c, rule_confidence ctx, RuleBased)
      | None \<Rightarrow> (fst (class_model ctx f), snd (class_model ctx f), ModelBased))"

text \<open>
  Modelled from the spec: the classification of a feature with its errors as values (the
  code of \<open>class_predict.py\<close> is missing): an unknown adduct and a class that the static
  table does not hold are the errors \<open>UnknownAdductError\<close> and \<open>UnknownClassError\<close>;
  otherwise "category and num_chain are looked up from a static class to (category,
  chain-count) table".
\<close>

definition classify :: "pipeline_context \<Rightarrow> feature \<Rightarrow> pipeline_error + class_decision" where
  "classify ctx f =
     (if adduct f \<notin> set (known_adducts ctx) then Inl UnknownAdductError
      else (case stage_class ctx f of
              (cls, conf, src) \<Rightarrow>
                (case map_of (class_table ctx) cls of
                   None \<Rightarrow> Inl UnknownClassError
                 | Some (cat, n) \<Rightarrow>
                     Inr \<lparr>predicted_class = Some cls, category = Some cat, num_chain = Some n,
                          confidence = Some conf, source = src\<rparr>)))"

text \<open>
  Modelled from the spec: the Class Resolver at the row boundary (the code of
  \<open>class_predict.py\<close> is missing), "decision marked invalid, downstream fields set
  missing, no exception propagates past the row boundary".
\<close>

definition resolve_class :: "pipeline_context \<Rightarrow> feature \<Rightarrow> class_decision" where
  "resolve_class ctx f = (case classify ctx f of Inl e \<Rightarrow> invalid_decision | Inr d \<Rightarrow> d)"

text \<open>Modelled from the spec: the three rank columns (their code is missing), missing ranks filled in.\<close>

definition pad3 :: "rank option list \<Rightarrow> rank option list" where
  "pad3 rs = take 3 (rs @ [None, None, None])"

text \<open>
  Modelled from the spec: the Chain Composition Resolver (the code of \<open>predict_plsf.py\<close> is
  missing), "for num_chain == 1: solve algebraically"; "for num_chain \<ge> 2: invoke a
  class/chain-count-specific ranking model ... to produce the 3 most probable
  chain-composition assignments"; "every assignment is canonicalized"; "if class or adduct
  is invalid, all ranks are missing".
\<close>

definition resolve_chains :: "pipeline_context \<Rightarrow> class_decision \<Rightarrow> feature \<Rightarrow> rank option list" where
  "resolve_chains ctx d f =
     (case (source d, predicted_class d, num_chain d) of
        (Invalid, _, _) \<Rightarrow> [None, None, None]
      | (_, Some cls, Some n) \<Rightarrow>
          (if n = 1
           then [map_option (\<lambda>cd. \<lparr>composition = [cd], rank_confidence = None\<rparr>)
                   (solve_single_chain (constants ctx) cls (neutral_mass_of ctx f)), None, None]
           else pad3 (map (\<lambda>(cs, p). Some \<lparr>composition = canonicalize cs, rank_confidence = Some p\<rparr>)
                        (ranking_model ctx cls n f)))
      | _ \<Rightarrow> [None, None, None])"

text \<open>
  Modelled from the spec: the AnnotationRecord (the output code of \<open>predict_plsf.py\<close> is
  missing), "feature id, name, precursor_mz, ion_mode, adduct, class, category, num_chain,
  pred_confidence, up to 3 ranked ChainComposition candidates with per-rank confidence".
\<close>

record annotation_record =
  ar_feature :: string
  name :: "string option"
  ar_precursor_mz :: real
  ar_ion_mode :: ion_mode
  ar_adduct :: string
  ar_class :: "string option"
  ar_category :: "string option"
  ar_num_chain :: "nat option"
  ar_pred_confidence :: "real option"
  ranks :: "rank option list"

text \<open>
  Modelled from the spec: the Aggregator/Namer (the code of \<open>predict_plsf.py\<close> is
  missing): the name from the class and the top rank, the confidence from the adduct, class
  and top-rank confidences, and the ranks.
\<close>

definition aggregate :: "feature \<Rightarrow> real option \<Rightarrow> class_decision \<Rightarrow> rank option list \<Rightarrow> annotation_record" where
  "aggregate f adduct_confidence d rs =
     (let top = (case rs of r # _ \<Rightarrow> r | [] \<Rightarrow> None)
      in \<lparr>ar_feature = feature_id f,
          name = (case (predicted_class d, top) of
                    (Some cls, Some r) \<Rightarrow> Some (build_name cls (composition r))
                  | _ \<Rightarrow> None),
          ar_precursor_mz = precursor_mz f, ar_ion_mode = ion_mode f, ar_adduct = adduct f,
          ar_class = predicted_class d, ar_category = category d, ar_num_chain = num_chain d,
          ar_pred_confidence =
            pred_confidence adduct_confidence (confidence d)
              (case top of Some r \<Rightarrow> rank_confidence r | None \<Rightarrow> None),
          ranks = rs\<rparr>)"

text \<open>
  Modelled from the spec: the cascade for one unmatched row, a feature with its adduct
  confidence (the code of \<open>run.py\<close> is missing): Class Resolver, Chain Composition
  Resolver, Aggregator.
\<close>

definition annotate_row :: "pipeline_context \<Rightarrow> feature \<times> real option \<Rightarrow> annotation_record" where
  "annotate_row ctx row =
     (let d = resolve_class ctx (fst row)
      in aggregate (fst row) (snd row) d (resolve_chains ctx d (fst row)))"


subsection \<open>Example data\<close>

text \<open>Modelled from the spec: example data for the scenarios (no code), \<open>example_matcher\<close>.\<close>

definition example_matcher :: matcher where
  "example_matcher m tol q r = (if q = r then 1 else if r = [] then 0 else 1 / 2)"

text \<open>Modelled from the spec: example data for the scenarios (no code), \<open>example_config\<close>.\<close>

definition example_config :: search_config where
  "example_config = \<lparr>MS1_tol = 0.005, is_ppm = False, MS2_tol = 0.01,
     scoring = weighted_dot_product, MS2_threshold = 0.7\<rparr>"

text \<open>Modelled from the spec: example data for the scenarios (no code), \<open>pc_reference\<close>.\<close>

definition pc_reference :: reference_entry where
  "pc_reference = \<lparr>ref_name = ''PC(16:0/18:1)'', formula = ''C42H82NO8P'', class_label = ''PC'',
     category_label = ''Glycerophospholipids'', neutral_mass = 759.5778,
     adduct_mz = [(''[M+H]+'', 760.5851)],
     ref_spectrum = [(104.11, 2000), (184.07, 5000)]\<rparr>"

text \<open>Modelled from the spec: example data for the scenarios (no code), \<open>near_reference\<close>.\<close>

definition near_reference :: reference_entry where
  "near_reference = \<lparr>ref_name = ''PE(18:0/20:1)'', formula = ''C43H84NO8P'', class_label = ''PE'',
     category_label = ''Glycerophospholipids'', neutral_mass = 759.5807,
     adduct_mz = [(''[M+H]+'', 760.5880)],
     ref_spectrum = [(141.02, 3000)]\<rparr>"

text \<open>Modelled from the spec: example data for the scenarios (no code), \<open>example_feature\<close>.\<close>

definition example_feature :: feature where
  "example_feature = \<lparr>feature_id = ''F000001'', precursor_mz = 760.5851, ion_mode = Positive,
     adduct = ''[M+H]+'', ms2 = Some [(104.11, 2000), (184.07, 5000)],
     fragment_vector = [104, 184]\<rparr>"

text \<open>Modelled from the spec: example data for the scenarios (no code), \<open>dark_feature\<close>.\<close>

definition dark_feature :: feature where
  "dark_feature = \<lparr>feature_id = ''F000002'', precursor_mz = 760.5879, ion_mode = Positive,
     adduct = ''[M+H]+'', ms2 = Some [(86.1, 1500)], fragment_vector = [86]\<rparr>"

text \<open>Modelled from the spec: example data for the scenarios (no code), \<open>example_constants\<close>.\<close>

definition example_constants :: mass_constants where
  "example_constants = \<lparr>backbone_mass = (\<lambda>cls. if cls = ''LPC'' then 257.1028 else 0),
     chain_mass = (\<lambda>c d. 14.01565 * real c - 2.01565 * real d),
     max_carbon = 3, max_double_bond = 1, tolerance = 0.005\<rparr>"

text \<open>Modelled from the spec: example data for the scenarios (no code), \<open>example_context\<close>.\<close>

definition example_context :: pipeline_context where
  "example_context = \<lparr>known_adducts = [''[M+H]+'', ''[M+Na]+'', ''[M-H]-''],
     class_table = [(''PC'', ''Glycerophospholipids'', 2), (''LPC'', ''Glycerophospholipids'', 1),
                    (''TG'', ''Glycerolipids'', 3)],
     rules_off = False, rule_confidence = 0.95,
     classes_mz = (\<lambda>f. [''PC'', ''PE'']),
     classes_ms2 = (\<lambda>f. if 184 \<in> set (fragment_vector f) then [''PC''] else []),
     class_model = (\<lambda>f. (''XX'', 0.4)),
     neutral_mass_of = (\<lambda>f. precursor_mz f - 1.00728),
     constants = example_constants,
     ranking_model = (\<lambda>cls n f. [([(16, 0), (18, 1)], 0.97), ([(16, 1), (18, 0)], 0.02)])\<rparr>"


section \<open>Frame lemmas of the DOM primitives\<close>

lemma set_token_add [simp]: "set (token_add c cs) = insert c (set cs)"
  by (auto simp: token_add_def)

lemma set_token_remove [simp]: "set (token_remove c cs) = set cs - {c}"
  by (auto simp: token_remove_def)

lemma map_of_assoc_set [simp]: "map_of (assoc_set k v kvs) = (map_of kvs)(k \<mapsto> v)"
  by (induction kvs) (auto simp: fun_eq_iff)

lemma contains_add [simp]:
  "contains (classList_add c a s) b t = (contains s b t \<or> (b = a \<and> t = c))"
  by (auto simp: contains_def classList_add_def)

lemma contains_remove [simp]:
  "contains (classList_remove c a s) b t = (contains s b t \<and> \<not> (b = a \<and> t = c))"
  by (auto simp: contains_def classList_remove_def)

lemma contains_setAttribute [simp]: "contains (setAttribute k v a s) b t = contains s b t"
  by (simp add: contains_def setAttribute_def)

lemma contains_setItem [simp]: "contains (snd (setItem k v s)) b t = contains s b t"
  by (simp add: contains_def setItem_def split: option.splits)

lemma fields_add [simp]:
  "storageFailure (classList_add c a s) = storageFailure s"
  "elems (classList_add c a s) = elems s"
  "documentElement (classList_add c a s) = documentElement s"
  "localStorage (classList_add c a s) = localStorage s"
  "innerWidth (classList_add c a s) = innerWidth s"
  "el_id (node (classList_add c a s) b) = el_id (node s b)"
  "localName (node (classList_add c a s) b) = localName (node s b)"
  "attributes (node (classList_add c a s) b) = attributes (node s b)"
  "parentElement (node (classList_add c a s) b) = parentElement (node s b)"
  by (simp_all add: classList_add_def)

lemma fields_remove [simp]:
  "storageFailure (classList_remove c a s) = storageFailure s"
  "elems (classList_remove c a s) = elems s"
  "documentElement (classList_remove c a s) = documentElement s"
  "localStorage (classList_remove c a s) = localStorage s"
  "innerWidth (classList_remove c a s) = innerWidth s"
  "el_id (node (classList_remove c a s) b) = el_id (node s b)"
  "localName (node (classList_remove c a s) b) = localName (node s b)"
  "attributes (node (classList_remove c a s) b) = attributes (node s b)"
  "parentElement (node (classList_remove c a s) b) = parentElement (node s b)"
  by (simp_all add: classList_remove_def)

lemma fields_setAttribute [simp]:
  "elems (setAttribute k v a s) = elems s"
  "documentElement (setAttribute k v a s) = documentElement s"
  "localStorage (setAttribute k v a s) = localStorage s"
  "innerWidth (setAttribute k v a s) = innerWidth s"
  "el_id (node (setAttribute k v a s) b) = el_id (node s b)"
  "localName (node (setAttribute k v a s) b) = localName (node s b)"
  "parentElement (node (setAttribute k v a s) b) = parentElement (node s b)"
  by (simp_all add: setAttribute_def)

lemma fields_setItem [simp]:
  "elems (snd (setItem k v s)) = elems s"
  "documentElement (snd (setItem k v s)) = documentElement s"
  "innerWidth (snd (setItem k v s)) = innerWidth s"
  "node (snd (setItem k v s)) = node s"
  by (simp_all add: setItem_def split: option.splits)

lemma setItem_completion:
  "fst (setItem k v s) = (case storageFailure s of None \<Rightarrow> Returned | Some e \<Rightarrow> Threw e)"
  by (simp add: setItem_def split: option.splits)

lemma getItem_setItem:
  "getItem (snd (setItem k v s)) k' =
     (if storageFailure s = None \<and> k' = k then Some v else getItem s k')"
  by (simp add: getItem_def setItem_def split: option.splits)

lemma getItem_add [simp]: "getItem (classList_add c a s) k = getItem s k"
  by (simp add: getItem_def)

lemma getItem_remove [simp]: "getItem (classList_remove c a s) k = getItem s k"
  by (simp add: getItem_def)

lemma getElementById_prims [simp]:
  "getElementById (classList_add c a s) i = getElementById s i"
  "getElementById (classList_remove c a s) i = getElementById s i"
  "getElementById (setAttribute k v a s) i = getElementById s i"
  "getElementById (snd (setItem k v s)) i = getElementById s i"
  by (simp_all add: getElementById_def)

lemma getElementById_SomeD:
  "getElementById s i = Some a \<Longrightarrow> a \<in> set (elems s) \<and> el_id (node s a) = i \<and> i \<noteq> []"
  by (auto simp: getElementById_def find_Some_iff split: if_splits)

section \<open>Frame lemmas of the dark-mode and dropdown functions\<close>

lemma updateDarkModeIcons_dark [simp]:
  "contains (updateDarkModeIcons s) a ''dark'' = contains s a ''dark''"
  by (simp add: updateDarkModeIcons_def Let_def split: option.splits)

lemma updateDarkModeIcons_frame [simp]:
  "documentElement (updateDarkModeIcons s) = documentElement s"
  "getItem (updateDarkModeIcons s) k = getItem s k"
  by (simp_all add: updateDarkModeIcons_def Let_def split: option.splits)

lemma fold_add_contains [simp]:
  "contains (fold (classList_add c) as s) b t = (contains s b t \<or> (b \<in> set as \<and> t = c))"
  by (induction as arbitrary: s) auto

lemma fold_remove_contains [simp]:
  "contains (fold (classList_remove c) as s) b t = (contains s b t \<and> \<not> (b \<in> set as \<and> t = c))"
  by (induction as arbitrary: s) auto

lemma fold_add_fields [simp]:
  "elems (fold (classList_add c) as s) = elems s"
  "documentElement (fold (classList_add c) as s) = documentElement s"
  "innerWidth (fold (classList_add c) as s) = innerWidth s"
  "el_id (node (fold (classList_add c) as s) b) = el_id (node s b)"
  "localName (node (fold (classList_add c) as s) b) = localName (node s b)"
  "attributes (node (fold (classList_add c) as s) b) = attributes (node s b)"
  "parentElement (node (fold (classList_add c) as s) b) = parentElement (node s b)"
  by (induction as arbitrary: s; simp)+

lemma fold_remove_fields [simp]:
  "elems (fold (classList_remove c) as s) = elems s"
  "documentElement (fold (classList_remove c) as s) = documentElement s"
  "innerWidth (fold (classList_remove c) as s) = innerWidth s"
  "el_id (node (fold (classList_remove c) as s) b) = el_id (node s b)"
  "localName (node (fold (classList_remove c) as s) b) = localName (node s b)"
  "attributes (node (fold (classList_remove c) as s) b) = attributes (node s b)"
  "parentElement (node (fold (classList_remove c) as s) b) = parentElement (node s b)"
  by (induction as arbitrary: s; simp)+

lemma getElementById_fold [simp]:
  "getElementById (fold (classList_add c) as s) i = getElementById s i"
  "getElementById (fold (classList_remove c) as s) i = getElementById s i"
  by (simp_all add: getElementById_def)

lemma closeAllDropdowns_contains:
  "contains (closeAllDropdowns s) b t =
     (contains s b t \<or> (t = ''hidden'' \<and> b \<in> set (elems s) \<and> contains s b ''dropdown-menu''))"
  by (auto simp: closeAllDropdowns_def querySelectorAll_class_def)

lemma closeAllDropdowns_fields [simp]:
  "elems (closeAllDropdowns s) = elems s"
  "el_id (node (closeAllDropdowns s) b) = el_id (node s b)"
  "getElementById (closeAllDropdowns s) i = getElementById s i"
  by (simp_all add: closeAllDropdowns_def)


section \<open>Frame lemmas of \<open>showPage\<close>\<close>

lemma hideAllPages_contains:
  "contains (hideAllPages s) b t =
     (contains s b t \<or> (t = ''hidden'' \<and> b \<in> set (elems s) \<and> contains s b ''page-content''))"
  by (auto simp: hideAllPages_def querySelectorAll_class_def)

lemma hideAllPages_fields [simp]:
  "elems (hideAllPages s) = elems s"
  "innerWidth (hideAllPages s) = innerWidth s"
  "el_id (node (hideAllPages s) b) = el_id (node s b)"
  "localName (node (hideAllPages s) b) = localName (node s b)"
  "getElementById (hideAllPages s) i = getElementById s i"
  by (simp_all add: hideAllPages_def)

lemma showTargetPage_contains:
  "contains (showTargetPage p s) b t =
     (contains s b t \<and> \<not> (getElementById s p = Some b \<and> t = ''hidden''))"
  by (auto simp: showTargetPage_def split: option.splits)

lemma showTargetPage_fields [simp]:
  "elems (showTargetPage p s) = elems s"
  "innerWidth (showTargetPage p s) = innerWidth s"
  "el_id (node (showTargetPage p s) b) = el_id (node s b)"
  "localName (node (showTargetPage p s) b) = localName (node s b)"
  "getElementById (showTargetPage p s) i = getElementById s i"
  by (simp_all add: showTargetPage_def split: option.splits)

lemma clearSidebarActive_contains:
  "contains (clearSidebarActive s) b t =
     (contains s b t \<and> \<not> (t = ''sidebar-active'' \<and> b \<in> set (elems s) \<and> contains s b ''sidebar-link''))"
  by (auto simp: clearSidebarActive_def querySelectorAll_class_def)

lemma clearSidebarActive_fields [simp]:
  "elems (clearSidebarActive s) = elems s"
  "innerWidth (clearSidebarActive s) = innerWidth s"
  "el_id (node (clearSidebarActive s) b) = el_id (node s b)"
  "localName (node (clearSidebarActive s) b) = localName (node s b)"
  "getElementById (clearSidebarActive s) i = getElementById s i"
  by (simp_all add: clearSidebarActive_def)

lemma closest_SomeD: "closest P s a = Some b \<Longrightarrow> P (node s b)"
proof (induction P s a rule: closest.induct)
  case (1 P s a)
  then show ?case
    by (subst (asm) (2) closest.simps) (auto split: if_splits option.splits)
qed

lemma activateSidebarLink_fields [simp]:
  "elems (snd (activateSidebarLink p s)) = elems s"
  "innerWidth (snd (activateSidebarLink p s)) = innerWidth s"
  "el_id (node (snd (activateSidebarLink p s)) b) = el_id (node s b)"
  "localName (node (snd (activateSidebarLink p s)) b) = localName (node s b)"
  by (simp_all add: activateSidebarLink_def Let_def split: option.splits)

lemma activateSidebarLink_other:
  "t \<noteq> ''hidden'' \<Longrightarrow> t \<noteq> ''sidebar-active'' \<Longrightarrow> t \<noteq> ''rotate-180'' \<Longrightarrow>
   contains (snd (activateSidebarLink p s)) b t = contains s b t"
  by (simp add: activateSidebarLink_def Let_def split: option.splits)

lemma activateSidebarLink_hidden_only_removed:
  "contains (snd (activateSidebarLink p s)) b ''hidden'' \<Longrightarrow> contains s b ''hidden''"
  by (auto simp: activateSidebarLink_def Let_def split: option.splits if_splits)

lemma activateSidebarLink_hidden_kept:
  assumes "contains s b ''hidden''" and "\<not> is_submenu_div (node s b)"
  shows "contains (snd (activateSidebarLink p s)) b ''hidden''"
proof -
  have "\<And>l. closest is_submenu_div (classList_add ''sidebar-active'' l s) l \<noteq> Some b"
  proof
    fix l assume "closest is_submenu_div (classList_add ''sidebar-active'' l s) l = Some b"
    then have "is_submenu_div (node (classList_add ''sidebar-active'' l s) b)"
      by (rule closest_SomeD)
    with assms(2) show False by (simp add: is_submenu_div_def)
  qed
  with assms(1) show ?thesis
    by (auto simp: activateSidebarLink_def Let_def split: option.splits)
qed

lemma le_fold_max: "a \<in> set xs \<Longrightarrow> a \<le> fold max xs (d::nat)"
proof (induction xs arbitrary: d)
  case Nil then show ?case by simp
next
  case (Cons x xs)
  have mono: "\<And>ys (e::nat). e \<le> fold max ys e"
  proof -
    fix ys :: "nat list" and e :: nat
    show "e \<le> fold max ys e"
    proof (induction ys arbitrary: e)
      case Nil show ?case by simp
    next
      case (Cons y ys)
      have "max y e \<le> fold max ys (max y e)" by (rule Cons.IH)
      then show ?case by simp
    qed
  qed
  show ?case
  proof (cases "a = x")
    case True
    have "max x d \<le> fold max xs (max x d)" by (rule mono)
    with True show ?thesis by simp
  next
    case False
    with Cons.prems have "a \<in> set xs" by simp
    then show ?thesis using Cons.IH by simp
  qed
qed

lemma elems_less_fresh: "a \<in> set (elems s) \<Longrightarrow> a < fresh s"
  using le_fold_max [of a "elems s" "documentElement s"] by (simp add: fresh_def)

lemma set_innerHTML_icon_old:
  "a < fresh s \<Longrightarrow> node (set_innerHTML_icon b d s) a = node s a"
  by (simp add: set_innerHTML_icon_def Let_def)

lemma set_innerHTML_icon_elems:
  "x \<in> set (elems (set_innerHTML_icon b d s)) \<Longrightarrow>
   x \<in> set (elems s) \<or>
   (x \<notin> set (elems s) \<and> set (classList (node (set_innerHTML_icon b d s) x)) \<subseteq> {''w-6'', ''h-6''})"
proof -
  assume x: "x \<in> set (elems (set_innerHTML_icon b d s))"
  have nf: "fresh s \<notin> set (elems s)" "Suc (fresh s) \<notin> set (elems s)"
    using elems_less_fresh [of "fresh s" s] elems_less_fresh [of "Suc (fresh s)" s] by auto
  from x have "x \<in> set (elems s) \<or> x = fresh s \<or> x = Suc (fresh s)"
    by (auto simp: set_innerHTML_icon_def Let_def split: if_splits)
  then show ?thesis
    using nf by (auto simp: set_innerHTML_icon_def Let_def svg_icon_def path_icon_def)
qed

lemma contains_set_innerHTML_icon:
  "a \<in> set (elems s) \<Longrightarrow> contains (set_innerHTML_icon b d s) a t = contains s a t"
  by (simp add: contains_def set_innerHTML_icon_old elems_less_fresh)

lemma toggleMobileMenu_elems:
  "x \<in> set (elems (toggleMobileMenu fs s)) \<Longrightarrow>
   x \<in> set (elems s) \<or>
   (x \<notin> set (elems s) \<and> (\<forall>t. contains (toggleMobileMenu fs s) x t \<longrightarrow> t = ''w-6'' \<or> t = ''h-6''))"
  unfolding toggleMobileMenu_def Let_def contains_def
  by (auto split: option.splits if_splits dest!: set_innerHTML_icon_elems)

lemma toggleMobileMenu_other:
  "a \<in> set (elems s) \<Longrightarrow> t \<noteq> ''hidden'' \<Longrightarrow> t \<noteq> ''-translate-x-full'' \<Longrightarrow> t \<noteq> ''translate-x-0'' \<Longrightarrow>
   contains (toggleMobileMenu fs s) a t = contains s a t"
  by (simp add: toggleMobileMenu_def Let_def contains_set_innerHTML_icon split: option.splits)

lemma toggleMobileMenu_close_hidden_kept:
  "a \<in> set (elems s) \<Longrightarrow> contains s a ''hidden'' \<Longrightarrow>
   contains (toggleMobileMenu (Some False) s) a ''hidden''"
  by (simp add: toggleMobileMenu_def Let_def contains_set_innerHTML_icon split: option.splits)

lemma toggleMobileMenu_close_hidden_same:
  "a \<in> set (elems s) \<Longrightarrow> el_id (node s a) \<noteq> ''overlay'' \<Longrightarrow>
   contains (toggleMobileMenu (Some False) s) a ''hidden'' = contains s a ''hidden''"
  by (auto simp: toggleMobileMenu_def Let_def contains_set_innerHTML_icon
      split: option.splits dest: getElementById_SomeD)

lemma toggleMobileMenu_el_id:
  "a \<in> set (elems s) \<Longrightarrow> el_id (node (toggleMobileMenu fs s) a) = el_id (node s a)"
  by (simp add: toggleMobileMenu_def Let_def set_innerHTML_icon_old elems_less_fresh
      split: option.splits)

lemma afterSidebar_fields [simp]:
  "elems (afterSidebar p s) = elems s"
  "el_id (node (afterSidebar p s) a) = el_id (node s a)"
  by (simp_all add: afterSidebar_def)

lemma afterSidebar_other:
  "t \<noteq> ''hidden'' \<Longrightarrow> t \<noteq> ''sidebar-active'' \<Longrightarrow> t \<noteq> ''rotate-180'' \<Longrightarrow>
   contains (afterSidebar p s) a t = contains s a t"
  by (simp add: afterSidebar_def activateSidebarLink_other clearSidebarActive_contains
      showTargetPage_contains hideAllPages_contains)

lemma afterSidebar_pages_hidden:
  assumes "a \<in> set (elems s)" "contains s a ''page-content''" "getElementById s p \<noteq> Some a"
    and "\<not> is_submenu_div (node s a)"
  shows "contains (afterSidebar p s) a ''hidden''"
proof -
  let ?s3 = "clearSidebarActive (showTargetPage p (hideAllPages s))"
  have "contains ?s3 a ''hidden''"
    using assms(1-3)
    by (simp add: clearSidebarActive_contains showTargetPage_contains hideAllPages_contains)
  moreover have "\<not> is_submenu_div (node ?s3 a)"
    using assms(4) by (simp add: is_submenu_div_def)
  ultimately show ?thesis
    unfolding afterSidebar_def by (rule activateSidebarLink_hidden_kept)
qed

lemma afterSidebar_target_shown:
  assumes "getElementById s p = Some t"
  shows "\<not> contains (afterSidebar p s) t ''hidden''"
proof
  assume "contains (afterSidebar p s) t ''hidden''"
  then have "contains (clearSidebarActive (showTargetPage p (hideAllPages s))) t ''hidden''"
    unfolding afterSidebar_def by (rule activateSidebarLink_hidden_only_removed)
  with assms show False
    by (simp add: clearSidebarActive_contains showTargetPage_contains)
qed

lemma afterDropdowns_elems:
  "x \<in> set (elems (afterDropdowns s)) \<Longrightarrow>
   x \<in> set (elems s) \<or> (x \<notin> set (elems s) \<and> \<not> contains (afterDropdowns s) x ''page-content'')"
proof -
  assume "x \<in> set (elems (afterDropdowns s))"
  then have x: "x \<in> set (elems (closeMobileMenuOnNavigation s))"
    by (simp add: afterDropdowns_def)
  show ?thesis
  proof (cases "innerWidth s < 768")
    case False
    with x show ?thesis by (simp add: closeMobileMenuOnNavigation_def)
  next
    case True
    with x have "x \<in> set (elems (toggleMobileMenu (Some False) s))"
      by (simp add: closeMobileMenuOnNavigation_def)
    from toggleMobileMenu_elems [OF this] True show ?thesis
      by (auto simp: afterDropdowns_def closeMobileMenuOnNavigation_def closeAllDropdowns_contains)
  qed
qed

lemma afterDropdowns_page_content:
  "a \<in> set (elems s) \<Longrightarrow>
   contains (afterDropdowns s) a ''page-content'' = contains s a ''page-content''"
  by (simp add: afterDropdowns_def closeAllDropdowns_contains closeMobileMenuOnNavigation_def
      toggleMobileMenu_other)

lemma afterDropdowns_el_id:
  "a \<in> set (elems s) \<Longrightarrow> el_id (node (afterDropdowns s) a) = el_id (node s a)"
  by (simp add: afterDropdowns_def closeMobileMenuOnNavigation_def toggleMobileMenu_el_id)

lemma afterDropdowns_hidden_kept:
  "a \<in> set (elems s) \<Longrightarrow> contains s a ''hidden'' \<Longrightarrow> contains (afterDropdowns s) a ''hidden''"
  by (simp add: afterDropdowns_def closeAllDropdowns_contains closeMobileMenuOnNavigation_def
      toggleMobileMenu_close_hidden_kept)

lemma afterDropdowns_not_hidden:
  "a \<in> set (elems s) \<Longrightarrow> el_id (node s a) \<noteq> ''overlay'' \<Longrightarrow> \<not> contains s a ''dropdown-menu'' \<Longrightarrow>
   \<not> contains s a ''hidden'' \<Longrightarrow> \<not> contains (afterDropdowns s) a ''hidden''"
  by (simp add: afterDropdowns_def closeAllDropdowns_contains closeMobileMenuOnNavigation_def
      toggleMobileMenu_close_hidden_same toggleMobileMenu_other)

lemma scrollToTop_frame [simp]:
  "elems (snd (scrollToTop s)) = elems s"
  "contains (snd (scrollToTop s)) a t = contains s a t"
  "el_id (node (snd (scrollToTop s)) a) = el_id (node s a)"
  by (simp_all add: scrollToTop_def contains_def split: option.splits)

lemma preventDefault_frame [simp]:
  "elems (preventDefault c s) = elems s"
  "contains (preventDefault c s) a t = contains s a t"
  "el_id (node (preventDefault c s) a) = el_id (node s a)"
  by (simp_all add: preventDefault_def contains_def split: clicked.splits)

lemma showPage_final_state:
  "snd (showPage p n c s) = afterSidebar p s \<or>
   (elems (snd (showPage p n c s)) = elems (afterDropdowns (afterSidebar p s)) \<and>
    (\<forall>a t. contains (snd (showPage p n c s)) a t = contains (afterDropdowns (afterSidebar p s)) a t) \<and>
    (\<forall>a. el_id (node (snd (showPage p n c s)) a) = el_id (node (afterDropdowns (afterSidebar p s)) a)))"
proof -
  let ?r = "activateSidebarLink p (clearSidebarActive (showTargetPage p (hideAllPages s)))"
  obtain k s4 where r: "?r = (k, s4)" by (cases ?r)
  then have s4: "s4 = afterSidebar p s" by (simp add: afterSidebar_def)
  let ?q = "scrollToTop (afterDropdowns s4)"
  obtain k' s7 where q: "?q = (k', s7)" by (cases ?q)
  then have s7: "s7 = snd (scrollToTop (afterDropdowns s4))" by simp
  show ?thesis
  proof (cases k)
    case (Threw e)
    with r s4 show ?thesis by (simp add: showPage_def)
  next
    case Returned
    show ?thesis
    proof (cases k')
      case (Threw e)
      with Returned r q have "snd (showPage p n c s) = s7"
        by (simp add: showPage_def afterDropdowns_def)
      with s7 s4 show ?thesis by simp
    next
      case Returned': Returned
      with Returned r q have "snd (showPage p n c s) = preventDefault c s7"
        by (simp add: showPage_def afterDropdowns_def)
      with s7 s4 show ?thesis by simp
    qed
  qed
qed

section \<open>The claims about the site scripts\<close>

text \<open>
  C10, as the code has it. When the storage takes the write, \<open>toggleDarkMode\<close> returns
  and \<open>localStorage['theme']\<close> is then \<open>'dark'\<close> when the root element has class
  \<open>dark\<close> and \<open>'light'\<close> when it has not; the call returns exactly when the storage
  takes the write. Two calls in a row give the root element the membership of \<open>dark\<close> it
  had before the first, whether or not they threw.
\<close>

theorem toggleDarkMode_theme_involution:
  "(storageFailure s = None \<longrightarrow>
      fst (toggleDarkMode s) = Returned \<and>
      getItem (snd (toggleDarkMode s)) ''theme'' =
        Some (if contains (snd (toggleDarkMode s)) (documentElement (snd (toggleDarkMode s))) ''dark''
              then ''dark'' else ''light''))
   \<and> (fst (toggleDarkMode s) = Returned) = (storageFailure s = None)
   \<and> contains (snd (toggleDarkMode (snd (toggleDarkMode s))))
         (documentElement (snd (toggleDarkMode (snd (toggleDarkMode s))))) ''dark''
       = contains s (documentElement s) ''dark''"
proof -
  have upd: "\<And>u l b t. contains (u\<lparr>localStorage := l\<rparr>) b t = contains u b t"
    by (simp add: contains_def)
  have stored: "\<And>u l k. getItem (u\<lparr>localStorage := l\<rparr>) k = map_of l k"
    by (simp add: getItem_def)
  have cls: "\<And>u. contains (snd (toggleDarkMode u)) (documentElement u) ''dark''
      = (\<not> contains u (documentElement u) ''dark'')"
    by (auto simp: toggleDarkMode_def Let_def setItem_def upd split: option.splits)
  have root: "\<And>u. documentElement (snd (toggleDarkMode u)) = documentElement u"
    by (simp add: toggleDarkMode_def Let_def setItem_def split: option.splits)
  have ret: "(fst (toggleDarkMode s) = Returned) = (storageFailure s = None)"
    by (auto simp: toggleDarkMode_def Let_def setItem_def split: option.splits)
  have theme: "storageFailure s = None \<longrightarrow>
      getItem (snd (toggleDarkMode s)) ''theme'' =
        Some (if contains s (documentElement s) ''dark'' then ''light'' else ''dark'')"
    by (simp add: toggleDarkMode_def Let_def setItem_def stored)
  have twice: "contains (snd (toggleDarkMode (snd (toggleDarkMode s)))) (documentElement s) ''dark''
      = contains s (documentElement s) ''dark''"
    using cls [of "snd (toggleDarkMode s)"] cls [of s] by (simp add: root)
  show ?thesis
    using ret theme twice by (simp add: root cls)
qed

theorem toggleDarkMode_theme_involution_witness:
  "storageFailure (docs_page 1024) = None
   \<and> fst (toggleDarkMode (docs_page 1024)) = Returned
   \<and> getItem (snd (toggleDarkMode (docs_page 1024))) ''theme'' = Some ''dark''
   \<and> contains (snd (toggleDarkMode (docs_page 1024))) 0 ''dark''
   \<and> \<not> contains (snd (toggleDarkMode (snd (toggleDarkMode (docs_page 1024))))) 0 ''dark''"
proof -
  have st: "storageFailure (docs_page 1024) = None" by code_simp
  have r: "documentElement (snd (toggleDarkMode (docs_page 1024))) = 0"
    "documentElement (snd (toggleDarkMode (snd (toggleDarkMode (docs_page 1024))))) = 0"
    "documentElement (docs_page 1024) = 0"
    by code_simp+
  have d: "contains (snd (toggleDarkMode (docs_page 1024))) 0 ''dark''"
    "\<not> contains (docs_page 1024) 0 ''dark''"
    by code_simp+
  from toggleDarkMode_theme_involution [of "docs_page 1024"] st r d show ?thesis by simp
qed

text \<open>
  The claim for every call fails where the storage refuses the write: the root element
  has class \<open>dark\<close> after the call, which threw, and there is no entry \<open>theme\<close>.
\<close>

theorem toggleDarkMode_storage_full_counterexample:
  "fst (toggleDarkMode full_storage_page) = Threw ''QuotaExceededError''
   \<and> documentElement (snd (toggleDarkMode full_storage_page)) = 0
   \<and> contains (snd (toggleDarkMode full_storage_page)) 0 ''dark''
   \<and> getItem (snd (toggleDarkMode full_storage_page)) ''theme'' = None"
  by code_simp

text \<open>
  C9, as the code has it. \<open>toggleDropdown(id)\<close>: when no element has that id, nothing
  changes. Otherwise, with \<open>d\<close> the element \<open>getElementById\<close> finds, after the call every
  other element with class \<open>dropdown-menu\<close> has class \<open>hidden\<close>; if \<open>d\<close> has class
  \<open>dropdown-menu\<close> it is visible exactly when it was hidden before; and if it has not,
  \<open>closeAllDropdowns\<close> never hides it, so it is visible after the call whatever it was.
\<close>

theorem toggleDropdown_one_open:
  "(getElementById s i = None \<longrightarrow> toggleDropdown i s = s) \<and>
   (\<forall>d. getElementById s i = Some d \<longrightarrow>
      (\<forall>a\<in>set (elems (toggleDropdown i s)).
          contains (toggleDropdown i s) a ''dropdown-menu'' \<and> a \<noteq> d
            \<longrightarrow> contains (toggleDropdown i s) a ''hidden'') \<and>
      (contains s d ''dropdown-menu'' \<longrightarrow>
          (\<not> contains (toggleDropdown i s) d ''hidden'') = contains s d ''hidden'') \<and>
      (\<not> contains s d ''dropdown-menu'' \<longrightarrow> \<not> contains (toggleDropdown i s) d ''hidden''))"
  by (auto simp: toggleDropdown_def Let_def closeAllDropdowns_contains dest: getElementById_SomeD)

theorem toggleDropdown_one_open_witness:
  "getElementById (docs_page 1024) ''menu-help'' = Some 14
   \<and> contains (docs_page 1024) 14 ''hidden''
   \<and> \<not> contains (toggleDropdown ''menu-help'' (docs_page 1024)) 14 ''hidden''
   \<and> contains (toggleDropdown ''menu-help'' (docs_page 1024)) 13 ''hidden''"
proof -
  have g: "getElementById (docs_page 1024) ''menu-help'' = Some 14" by code_simp
  have e: "13 \<in> set (elems (toggleDropdown ''menu-help'' (docs_page 1024)))" by code_simp
  have c: "contains (toggleDropdown ''menu-help'' (docs_page 1024)) 13 ''dropdown-menu''"
    by code_simp
  have d: "contains (docs_page 1024) 14 ''dropdown-menu''" "contains (docs_page 1024) 14 ''hidden''"
    by code_simp+
  from toggleDropdown_one_open [of "docs_page 1024" "''menu-help''"] g e c d
  show ?thesis by auto
qed

text \<open>
  The claim without the condition on the class fails: \<open>sidebar\<close> is the id of an element
  that is no dropdown menu; it is visible before \<open>toggleDropdown('sidebar')\<close> and visible
  after it.
\<close>

theorem toggleDropdown_not_a_menu_counterexample:
  "getElementById (docs_page 1024) ''sidebar'' = Some 1
   \<and> \<not> contains (docs_page 1024) 1 ''hidden''
   \<and> \<not> contains (toggleDropdown ''sidebar'' (docs_page 1024)) 1 ''hidden''"
  by code_simp

text \<open>
  C8, as the code has it. \<open>showPage(pageId, navId, clickedElement)\<close> on a document with an
  element \<open>content-area\<close>, where \<open>pageId\<close> is not \<open>overlay\<close>, no element with class
  \<open>page-content\<close> is a \<open>div\<close> whose id starts with \<open>submenu-\<close>, and the element with id
  \<open>pageId\<close> has not class \<open>dropdown-menu\<close>: after the call (returned, or thrown for a
  submenu button without a chevron) every element of the document with class
  \<open>page-content\<close> whose id differs from \<open>pageId\<close> has class \<open>hidden\<close>; the element
  that \<open>getElementById(pageId)\<close> found has not; and that element is the only
  \<open>page-content\<close> element that can be visible.
\<close>

theorem showPage_only_target_visible:
  assumes ca: "getElementById s ''content-area'' \<noteq> None"
    and nooverlay: "pageId \<noteq> ''overlay''"
    and nosub: "\<forall>a\<in>set (elems s). contains s a ''page-content'' \<longrightarrow> \<not> is_submenu_div (node s a)"
    and nodd: "\<forall>t. getElementById s pageId = Some t \<longrightarrow> \<not> contains s t ''dropdown-menu''"
  shows "(\<forall>a\<in>set (elems (snd (showPage pageId navId clickedElement s))).
            contains (snd (showPage pageId navId clickedElement s)) a ''page-content'' \<and>
            el_id (node (snd (showPage pageId navId clickedElement s)) a) \<noteq> pageId
            \<longrightarrow> contains (snd (showPage pageId navId clickedElement s)) a ''hidden'')
       \<and> (\<forall>t. getElementById s pageId = Some t
            \<longrightarrow> \<not> contains (snd (showPage pageId navId clickedElement s)) t ''hidden'')
       \<and> (\<forall>a\<in>set (elems (snd (showPage pageId navId clickedElement s))).
            contains (snd (showPage pageId navId clickedElement s)) a ''page-content'' \<and>
            \<not> contains (snd (showPage pageId navId clickedElement s)) a ''hidden''
            \<longrightarrow> getElementById s pageId = Some a)"
proof -
  let ?s' = "snd (showPage pageId navId clickedElement s)"
  let ?s4 = "afterSidebar pageId s"
  let ?s6 = "afterDropdowns ?s4"
  have pc4: "\<And>a. contains ?s4 a ''page-content'' = contains s a ''page-content''"
    by (simp add: afterSidebar_other)
  have dd4: "\<And>a. contains ?s4 a ''dropdown-menu'' = contains s a ''dropdown-menu''"
    by (simp add: afterSidebar_other)
  have hid4: "\<And>a. a \<in> set (elems s) \<Longrightarrow> contains s a ''page-content'' \<Longrightarrow>
      getElementById s pageId \<noteq> Some a \<Longrightarrow> contains ?s4 a ''hidden''"
    using nosub by (auto intro: afterSidebar_pages_hidden)
  have tgt4: "\<And>t. getElementById s pageId = Some t \<Longrightarrow> \<not> contains ?s4 t ''hidden''"
    by (rule afterSidebar_target_shown)
  have hid6: "\<And>a. a \<in> set (elems ?s6) \<Longrightarrow> contains ?s6 a ''page-content'' \<Longrightarrow>
      getElementById s pageId \<noteq> Some a \<Longrightarrow> contains ?s6 a ''hidden''"
  proof -
    fix a assume a: "a \<in> set (elems ?s6)" "contains ?s6 a ''page-content''"
      "getElementById s pageId \<noteq> Some a"
    from afterDropdowns_elems [OF a(1)] a(2) have old: "a \<in> set (elems ?s4)" by auto
    with a(2) have "contains ?s4 a ''page-content''" by (simp add: afterDropdowns_page_content)
    with old a(3) have "contains ?s4 a ''hidden''" using hid4 [of a] pc4 by simp
    with old show "contains ?s6 a ''hidden''" by (rule afterDropdowns_hidden_kept)
  qed
  have tgt6: "\<And>t. getElementById s pageId = Some t \<Longrightarrow> \<not> contains ?s6 t ''hidden''"
  proof -
    fix t assume t: "getElementById s pageId = Some t"
    from getElementById_SomeD [OF t] have tin: "t \<in> set (elems ?s4)"
      and tid: "el_id (node ?s4 t) \<noteq> ''overlay''" using nooverlay by auto
    from t nodd have "\<not> contains ?s4 t ''dropdown-menu''" by (simp add: dd4)
    with tin tid tgt4 [OF t] show "\<not> contains ?s6 t ''hidden''"
      by (intro afterDropdowns_not_hidden)
  qed
  have id4: "\<And>a. a \<in> set (elems s) \<Longrightarrow> contains s a ''page-content'' \<Longrightarrow>
      \<not> contains ?s4 a ''hidden'' \<Longrightarrow> getElementById s pageId = Some a"
    using hid4 by blast
  have tid: "\<And>a. getElementById s pageId = Some a \<Longrightarrow> el_id (node s a) = pageId"
    by (auto dest: getElementById_SomeD)
  from showPage_final_state [of pageId navId clickedElement s]
  show ?thesis
  proof
    assume e: "?s' = ?s4"
    show ?thesis
      unfolding e using hid4 tgt4 tid pc4 by (simp, blast)
  next
    assume f: "elems ?s' = elems ?s6 \<and> (\<forall>a t. contains ?s' a t = contains ?s6 a t) \<and>
        (\<forall>a. el_id (node ?s' a) = el_id (node ?s6 a))"
    have ids: "\<And>a. a \<in> set (elems ?s6) \<Longrightarrow> contains ?s6 a ''page-content'' \<Longrightarrow>
        el_id (node ?s6 a) = el_id (node s a)"
    proof -
      fix a assume a: "a \<in> set (elems ?s6)" "contains ?s6 a ''page-content''"
      from afterDropdowns_elems [OF a(1)] a(2) have "a \<in> set (elems ?s4)" by auto
      then show "el_id (node ?s6 a) = el_id (node s a)" by (simp add: afterDropdowns_el_id)
    qed
    from f have 1: "elems ?s' = elems ?s6" and 2: "\<And>a t. contains ?s' a t = contains ?s6 a t"
      and 3: "\<And>a. el_id (node ?s' a) = el_id (node ?s6 a)" by auto
    show ?thesis
      unfolding 1 2 3 using hid6 tgt6 tid ids by (intro conjI ballI allI impI; metis)
  qed
qed

theorem showPage_only_target_visible_witness:
  "getElementById (docs_page 500) ''content-area'' = Some 10
   \<and> getElementById (docs_page 500) ''page-installation'' = Some 11
   \<and> fst (showPage ''page-installation'' ''nav-docs'' EventArgument (docs_page 500)) = Returned
   \<and> \<not> contains (snd (showPage ''page-installation'' ''nav-docs'' EventArgument (docs_page 500))) 11 ''hidden''
   \<and> contains (snd (showPage ''page-installation'' ''nav-docs'' EventArgument (docs_page 500))) 12 ''hidden''"
proof -
  let ?s = "docs_page 500"
  let ?s' = "snd (showPage ''page-installation'' ''nav-docs'' EventArgument ?s)"
  have ca: "getElementById ?s ''content-area'' = Some 10" by code_simp
  have tg: "getElementById ?s ''page-installation'' = Some 11" by code_simp
  have ret: "fst (showPage ''page-installation'' ''nav-docs'' EventArgument ?s) = Returned"
    by code_simp
  have h1: "getElementById ?s ''content-area'' \<noteq> None" using ca by simp
  have h2: "''page-installation'' \<noteq> ''overlay''" by simp
  have h3: "\<forall>a\<in>set (elems ?s). contains ?s a ''page-content'' \<longrightarrow> \<not> is_submenu_div (node ?s a)"
    by code_simp
  have "\<not> contains ?s 11 ''dropdown-menu''" by code_simp
  with tg have h4: "\<forall>t. getElementById ?s ''page-installation'' = Some t
      \<longrightarrow> \<not> contains ?s t ''dropdown-menu''" by simp
  have m: "12 \<in> set (elems ?s')" "contains ?s' 12 ''page-content''"
    "el_id (node ?s' 12) \<noteq> ''page-installation''"
    by code_simp+
  from showPage_only_target_visible [OF h1 h2 h3 h4, of "''nav-docs''" EventArgument] m tg
  have "\<not> contains ?s' 11 ''hidden''" "contains ?s' 12 ''hidden''" by blast+
  with ca tg ret show ?thesis by simp
qed

text \<open>
  Each of the three conditions is needed. On a narrow window \<open>toggleMobileMenu(false)\<close>
  hides the overlay again after \<open>showPage('overlay')\<close> has shown it.
\<close>

theorem showPage_overlay_counterexample:
  "getElementById (docs_page 500) ''content-area'' = Some 10
   \<and> getElementById (docs_page 500) ''overlay'' = Some 7
   \<and> fst (showPage ''overlay'' ''nav-docs'' NoArgument (docs_page 500)) = Returned
   \<and> getElementById (snd (showPage ''overlay'' ''nav-docs'' NoArgument (docs_page 500))) ''overlay'' = Some 7
   \<and> contains (snd (showPage ''overlay'' ''nav-docs'' NoArgument (docs_page 500))) 7 ''hidden''"
  by code_simp

text \<open>
  A page that is also a dropdown menu is hidden again by \<open>closeAllDropdowns\<close>; a
  \<open>page-content\<close> element that is the submenu of the activated link is shown together with
  the target page.
\<close>

lemma showPage_dropdown_page_stays_hidden:
  "getElementById menu_page_doc ''content-area'' = Some 1
   \<and> getElementById menu_page_doc ''page-about'' = Some 2
   \<and> fst (showPage ''page-about'' ''nav-about'' NoArgument menu_page_doc) = Returned
   \<and> contains (snd (showPage ''page-about'' ''nav-about'' NoArgument menu_page_doc)) 2 ''hidden''"
  by code_simp

lemma showPage_submenu_page_opened:
  "getElementById submenu_page_doc ''content-area'' = Some 1
   \<and> fst (showPage ''page-installation'' ''nav-docs'' NoArgument submenu_page_doc) = Returned
   \<and> 4 \<in> set (elems (snd (showPage ''page-installation'' ''nav-docs'' NoArgument submenu_page_doc)))
   \<and> contains (snd (showPage ''page-installation'' ''nav-docs'' NoArgument submenu_page_doc)) 4 ''page-content''
   \<and> el_id (node (snd (showPage ''page-installation'' ''nav-docs'' NoArgument submenu_page_doc)) 4) = ''submenu-guide''
   \<and> \<not> contains (snd (showPage ''page-installation'' ''nav-docs'' NoArgument submenu_page_doc)) 4 ''hidden''
   \<and> \<not> contains (snd (showPage ''page-installation'' ''nav-docs'' NoArgument submenu_page_doc)) 6 ''hidden''"
  by code_simp

section \<open>Lemmas about the pipeline model\<close>

lemma chain_ge_total: "chain_ge a b \<or> chain_ge b a"
  by (auto simp: chain_ge_def)

lemma chain_ge_trans: "chain_ge a b \<Longrightarrow> chain_ge b c \<Longrightarrow> chain_ge a c"
  by (auto simp: chain_ge_def)

lemma chain_ge_antisym: "chain_ge a b \<Longrightarrow> chain_ge b a \<Longrightarrow> a = b"
  by (auto simp: chain_ge_def prod_eq_iff)

lemma mset_insert_chain: "mset (insert_chain x xs) = add_mset x (mset xs)"
  by (induction xs) auto

lemma mset_canonicalize: "mset (canonicalize xs) = mset xs"
  by (induction xs) (auto simp: mset_insert_chain)

lemma set_insert_chain: "set (insert_chain x xs) = insert x (set xs)"
  using mset_insert_chain [of x xs] by (metis set_mset_add_mset_insert set_mset_mset)

lemma sorted_insert_chain:
  "sorted_wrt chain_ge xs \<Longrightarrow> sorted_wrt chain_ge (insert_chain x xs)"
proof (induction xs)
  case Nil then show ?case by simp
next
  case (Cons y ys)
  show ?case
  proof (cases "chain_ge x y")
    case True
    with Cons.prems show ?thesis by (auto intro: chain_ge_trans)
  next
    case False
    then have "chain_ge y x" using chain_ge_total by blast
    with False Cons show ?thesis by (auto simp: set_insert_chain)
  qed
qed

lemma canonical_canonicalize: "is_canonical (canonicalize xs)"
  unfolding is_canonical_def by (induction xs) (auto intro: sorted_insert_chain)

lemma insert_chain_front:
  "\<forall>y\<in>set xs. chain_ge x y \<Longrightarrow> insert_chain x xs = x # xs"
  by (cases xs) auto

lemma canonicalize_canonical: "is_canonical xs \<Longrightarrow> canonicalize xs = xs"
  unfolding is_canonical_def by (induction xs) (auto simp: insert_chain_front)

lemma canonical_unique:
  "sorted_wrt chain_ge xs \<Longrightarrow> sorted_wrt chain_ge ys \<Longrightarrow> mset xs = mset ys \<Longrightarrow> xs = ys"
proof (induction xs arbitrary: ys)
  case Nil then show ?case by simp
next
  case (Cons x xs)
  from Cons.prems(3) obtain y ys' where ys: "ys = y # ys'" by (cases ys) auto
  have "x \<in> set ys" using Cons.prems(3) by (metis list.set_intros(1) set_mset_mset)
  with Cons.prems(2) ys have yx: "chain_ge y x \<or> x = y" by auto
  have "y \<in> set (x # xs)" using Cons.prems(3) ys by (metis list.set_intros(1) set_mset_mset)
  with Cons.prems(1) have xy: "chain_ge x y \<or> x = y" by auto
  from xy yx have eq: "x = y" by (auto dest: chain_ge_antisym)
  with Cons.prems ys have "xs = ys'" by (intro Cons.IH) auto
  with eq ys show ?case by simp
qed


lemma best_of_mem: "best_of b ms \<in> set (b # ms)"
  by (induction ms arbitrary: b) (auto split: if_splits)

lemma better_trans: "better a b \<Longrightarrow> better b c \<Longrightarrow> better a c"
  by (auto simp: better_def)

lemma better_neg_trans: "better a c \<Longrightarrow> \<not> better b c \<Longrightarrow> better a b"
  by (auto simp: better_def)

lemma best_of_best: "c \<in> set (b # ms) \<Longrightarrow> \<not> better c (best_of b ms)"
proof (induction ms arbitrary: b c)
  case Nil
  then show ?case by (simp add: better_def)
next
  case (Cons m ms)
  show ?case
  proof (cases "better m b")
    case True
    then have eq: "best_of b (m # ms) = best_of m ms" by simp
    have keep: "\<not> better m (best_of m ms)" using Cons.IH [of m m] by simp
    from Cons.prems consider "c = b" | "c = m" | "c \<in> set ms" by auto
    then show ?thesis
    proof cases
      case 1
      with True keep show ?thesis unfolding eq using better_trans by blast
    next
      case 2
      with keep show ?thesis unfolding eq by simp
    next
      case 3
      then show ?thesis unfolding eq using Cons.IH [of c m] by simp
    qed
  next
    case False
    then have eq: "best_of b (m # ms) = best_of b ms" by simp
    have keep: "\<not> better b (best_of b ms)" using Cons.IH [of b b] by simp
    from Cons.prems consider "c = b" | "c = m" | "c \<in> set ms" by auto
    then show ?thesis
    proof cases
      case 1
      with keep show ?thesis unfolding eq by simp
    next
      case 2
      with False keep show ?thesis unfolding eq using better_neg_trans by blast
    next
      case 3
      then show ?thesis unfolding eq using Cons.IH [of c b] by simp
    qed
  qed
qed

lemma not_better_iff:
  "(\<not> better c b) = (similarity c \<le> similarity b \<and>
      (similarity c = similarity b \<longrightarrow> \<bar>mass_diff_ppm b\<bar> \<le> \<bar>mass_diff_ppm c\<bar>))"
  by (auto simp: better_def)

lemma closest_pair_mem: "closest_pair res b ps \<in> set (b # ps)"
  by (induction ps arbitrary: b) (auto split: if_splits)

lemma closest_pair_le_start: "res (closest_pair res b ps) \<le> res b"
proof (induction ps arbitrary: b)
  case Nil show ?case by simp
next
  case (Cons p ps)
  show ?case using Cons.IH [of "if res p < res b then p else b"] by (auto split: if_splits)
qed

lemma closest_pair_min: "p \<in> set (b # ps) \<Longrightarrow> res (closest_pair res b ps) \<le> res p"
proof (induction ps arbitrary: b)
  case Nil then show ?case by simp
next
  case (Cons x xs)
  let ?b' = "if res x < res b then x else b"
  have start: "res (closest_pair res ?b' xs) \<le> res ?b'" by (rule closest_pair_le_start)
  from Cons.prems consider "p = b" | "p = x" | "p \<in> set xs" by auto
  then show ?case
  proof cases
    case 1 with start show ?thesis by (auto split: if_splits)
  next
    case 2 with start show ?thesis by (auto split: if_splits)
  next
    case 3 then show ?thesis using Cons.IH [of ?b'] by simp
  qed
qed

section \<open>The claims about the annotation pipeline\<close>

text \<open>
  C1. For a feature whose spectrum parsed, the Database Search Engine accepts a candidate
  only if its similarity is at least \<open>MS2_threshold\<close>; the accepted candidate is one of the
  candidates within MS1 tolerance, no candidate has a higher similarity, and none of equal
  similarity has a smaller absolute \<open>mass_diff_ppm\<close>. The feature is unmatched exactly
  when every candidate scores below the threshold, in particular when there is no
  candidate; and it is written to the matched table in the first case and to the unmatched
  table in the second.
\<close>

theorem search_feature_accepts_best:
  assumes wf: "ms2 f = Some q"
  shows "(\<forall>m. search_feature M cfg store f = Matched m \<longrightarrow>
            accepted m \<and> m\<lparr>accepted := False\<rparr> \<in> set (scored M cfg store f q) \<and>
            MS2_threshold cfg \<le> similarity m \<and>
            (\<forall>c\<in>set (scored M cfg store f q).
               similarity c \<le> similarity m \<and>
               (similarity c = similarity m \<longrightarrow> \<bar>mass_diff_ppm m\<bar> \<le> \<bar>mass_diff_ppm c\<bar>)))
       \<and> (search_feature M cfg store f = Unmatched) =
            (\<forall>c\<in>set (scored M cfg store f q). similarity c < MS2_threshold cfg)
       \<and> (candidates cfg store f = [] \<longrightarrow> search_feature M cfg store f = Unmatched)
       \<and> search_feature M cfg store f \<noteq> IngestionError
       \<and> (f \<in> set fs \<longrightarrow>
            (f \<in> fst ` set (matched (db_search M cfg store fs))) =
              (\<exists>m. search_feature M cfg store f = Matched m) \<and>
            (\<forall>m. ((f, m) \<in> set (matched (db_search M cfg store fs))) =
              (search_feature M cfg store f = Matched m)) \<and>
            (f \<in> set (unmatched (db_search M cfg store fs))) =
              (search_feature M cfg store f = Unmatched))"
proof -
  let ?S = "scored M cfg store f q"
  have acc: "\<And>c. c \<in> set ?S \<Longrightarrow> \<not> accepted c"
    by (auto simp: scored_def score_def)
  have A: "\<forall>m. search_feature M cfg store f = Matched m \<longrightarrow>
            accepted m \<and> m\<lparr>accepted := False\<rparr> \<in> set ?S \<and>
            MS2_threshold cfg \<le> similarity m \<and>
            (\<forall>c\<in>set ?S.
               similarity c \<le> similarity m \<and>
               (similarity c = similarity m \<longrightarrow> \<bar>mass_diff_ppm m\<bar> \<le> \<bar>mass_diff_ppm c\<bar>))"
  proof (intro allI impI)
    fix m assume m: "search_feature M cfg store f = Matched m"
    then obtain x xs where S: "?S = x # xs" and thr: "MS2_threshold cfg \<le> similarity (best_of x xs)"
      and meq: "m = (best_of x xs)\<lparr>accepted := True\<rparr>"
      using wf by (auto simp: search_feature_def Let_def split: list.splits if_splits)
    have mem: "best_of x xs \<in> set ?S" using best_of_mem [of x xs] S by simp
    then have "\<not> accepted (best_of x xs)" by (rule acc)
    then have unaccepted: "m\<lparr>accepted := False\<rparr> = best_of x xs" using meq by simp
    have best: "\<And>c. c \<in> set ?S \<Longrightarrow> \<not> better c (best_of x xs)"
      using best_of_best [of _ x xs] S by simp
    show "accepted m \<and> m\<lparr>accepted := False\<rparr> \<in> set ?S \<and>
            MS2_threshold cfg \<le> similarity m \<and>
            (\<forall>c\<in>set ?S.
               similarity c \<le> similarity m \<and>
               (similarity c = similarity m \<longrightarrow> \<bar>mass_diff_ppm m\<bar> \<le> \<bar>mass_diff_ppm c\<bar>))"
      using meq unaccepted mem thr best by (auto simp: not_better_iff)
  qed
  have B: "(search_feature M cfg store f = Unmatched) =
            (\<forall>c\<in>set ?S. similarity c < MS2_threshold cfg)"
  proof (cases ?S)
    case Nil
    with wf show ?thesis by (simp add: search_feature_def)
  next
    case (Cons x xs)
    have mem: "best_of x xs \<in> set ?S" using best_of_mem [of x xs] Cons by simp
    have best: "\<And>c. c \<in> set ?S \<Longrightarrow> similarity c \<le> similarity (best_of x xs)"
      using best_of_best [of _ x xs] Cons by (simp add: not_better_iff)
    have "(search_feature M cfg store f = Unmatched) = (similarity (best_of x xs) < MS2_threshold cfg)"
      using wf Cons by (auto simp: search_feature_def Let_def)
    also have "\<dots> = (\<forall>c\<in>set ?S. similarity c < MS2_threshold cfg)"
      using mem best by (meson le_less_trans)
    finally show ?thesis .
  qed
  have C: "candidates cfg store f = [] \<longrightarrow> search_feature M cfg store f = Unmatched"
    using wf by (simp add: search_feature_def scored_def)
  have D: "search_feature M cfg store f \<noteq> IngestionError"
    using wf by (auto simp: search_feature_def Let_def split: list.splits)
  have m1: "\<And>m. ((f, m) \<in> set (matched (db_search M cfg store fs))) =
      (f \<in> set fs \<and> search_feature M cfg store f = Matched m)"
    by (auto simp: db_search_def split: search_outcome.splits)
  have m2: "(f \<in> fst ` set (matched (db_search M cfg store fs))) =
      (\<exists>m. (f, m) \<in> set (matched (db_search M cfg store fs)))"
    by force
  have m3: "(f \<in> set (unmatched (db_search M cfg store fs))) =
      (f \<in> set fs \<and> search_feature M cfg store f = Unmatched)"
    by (simp add: db_search_def)
  have E: "f \<in> set fs \<longrightarrow>
            (f \<in> fst ` set (matched (db_search M cfg store fs))) =
              (\<exists>m. search_feature M cfg store f = Matched m) \<and>
            (\<forall>m. ((f, m) \<in> set (matched (db_search M cfg store fs))) =
              (search_feature M cfg store f = Matched m)) \<and>
            (f \<in> set (unmatched (db_search M cfg store fs))) =
              (search_feature M cfg store f = Unmatched)"
    unfolding m2 m1 m3 by simp
  from A B C D E show ?thesis by blast
qed

theorem search_feature_accepts_best_witness:
  "ms2 example_feature = Some [(104.11, 2000), (184.07, 5000)]
   \<and> search_feature example_matcher example_config [near_reference, pc_reference] example_feature
       = Matched \<lparr>mr_feature = ''F000001'', mr_reference = pc_reference, mass_diff_ppm = 0,
           similarity = 1, accepted = True\<rparr>
   \<and> MS2_threshold example_config \<le> 1
   \<and> example_feature \<in> fst ` set (matched (db_search example_matcher example_config
         [near_reference, pc_reference] [example_feature, dark_feature]))"
proof -
  have wf: "ms2 example_feature = Some [(104.11, 2000), (184.07, 5000)]" by code_simp
  have ev: "search_feature example_matcher example_config [near_reference, pc_reference] example_feature
       = Matched \<lparr>mr_feature = ''F000001'', mr_reference = pc_reference, mass_diff_ppm = 0,
           similarity = 1, accepted = True\<rparr>" by code_simp
  have mem: "example_feature \<in> set [example_feature, dark_feature]" by simp
  from search_feature_accepts_best [OF wf, of example_matcher example_config
      "[near_reference, pc_reference]" "[example_feature, dark_feature]"] ev mem wf
  show ?thesis by auto
qed



text \<open>
  C4. Canonicalizing twice is canonicalizing once, and a canonical composition is left as
  it is; the result is in canonical order and has the same chains; two compositions with
  the same chains have the same canonical form; the order is total, antisymmetric and
  transitive, and it is descending carbon count, then descending double-bond count.
\<close>

theorem canonicalize_idempotent_total:
  "canonicalize (canonicalize cs) = canonicalize cs
   \<and> (is_canonical cs \<longrightarrow> canonicalize cs = cs)
   \<and> is_canonical (canonicalize cs)
   \<and> mset (canonicalize cs) = mset cs
   \<and> (mset cs = mset ds \<longrightarrow> canonicalize cs = canonicalize ds)
   \<and> (chain_ge a b \<or> chain_ge b a)
   \<and> (chain_ge a b \<and> chain_ge b a \<longrightarrow> a = b)
   \<and> (chain_ge a b \<and> chain_ge b c \<longrightarrow> chain_ge a c)
   \<and> chain_ge a b = (fst b < fst a \<or> (fst a = fst b \<and> snd b \<le> snd a))"
proof -
  have 1: "canonicalize (canonicalize cs) = canonicalize cs"
    by (rule canonicalize_canonical) (rule canonical_canonicalize)
  have 5: "mset cs = mset ds \<longrightarrow> canonicalize cs = canonicalize ds"
  proof
    assume "mset cs = mset ds"
    then have "mset (canonicalize cs) = mset (canonicalize ds)" by (simp add: mset_canonicalize)
    then show "canonicalize cs = canonicalize ds"
      using canonical_canonicalize [of cs] canonical_canonicalize [of ds]
      unfolding is_canonical_def by (intro canonical_unique)
  qed
  show ?thesis
    using 1 5 canonicalize_canonical [of cs] canonical_canonicalize [of cs] mset_canonicalize [of cs]
      chain_ge_total [of a b] chain_ge_antisym [of a b] chain_ge_trans [of a b c]
    by (auto simp: chain_ge_def)
qed

theorem canonicalize_idempotent_total_witness:
  "canonicalize [(16, 0), (18, 1), (0, 0), (18, 2)] = [(18, 2), (18, 1), (16, 0), (0, 0)]
   \<and> canonicalize (canonicalize [(16, 0), (18, 1), (0, 0), (18, 2)]) = [(18, 2), (18, 1), (16, 0), (0, 0)]
   \<and> canonicalize [(18, 2), (0, 0), (18, 1), (16, 0)] = [(18, 2), (18, 1), (16, 0), (0, 0)]"
proof -
  have ev: "canonicalize [(16, 0), (18, 1), (0, 0), (18, 2)] = [(18, 2), (18, 1), (16, 0), (0, 0)]"
    by code_simp
  have ms: "mset [(16, 0), (18, 1), (0, 0), (18::nat, 2::nat)] = mset [(18, 2), (0, 0), (18, 1), (16, 0)]"
    by (simp add: add_mset_commute)
  from canonicalize_idempotent_total [of "[(16, 0), (18, 1), (0, 0), (18, 2)]"
      "[(18, 2), (0, 0), (18, 1), (16, 0)]" "(0, 0)" "(0, 0)" "(0, 0)"]
  have idem: "canonicalize (canonicalize [(16, 0), (18, 1), (0, 0), (18, 2)])
      = canonicalize [(16, 0), (18, 1), (0, 0), (18, 2)]"
    and same: "mset [(16, 0), (18, 1), (0, 0), (18::nat, 2::nat)] = mset [(18, 2), (0, 0), (18, 1), (16, 0)]
      \<longrightarrow> canonicalize [(16, 0), (18, 1), (0, 0), (18, 2)] = canonicalize [(18, 2), (0, 0), (18, 1), (16, 0)]"
    by blast+
  from same ms have "canonicalize [(18, 2), (0, 0), (18, 1), (16, 0)]
      = canonicalize [(16, 0), (18, 1), (0, 0), (18, 2)]" by simp
  with idem ev show ?thesis by (simp only: simp_thms)
qed

text \<open>
  C5. For \<open>num_chain = 1\<close> the resolver's answer is the solver's: a pair of the search
  space of least residual, returned only when that residual is within the tolerance (so
  the mass balance holds within tolerance), and no pair when none is within it. The
  answer does not depend on the ranking model, and depends on the feature only through
  its neutral mass.
\<close>

theorem solve_single_chain_mass_balance:
  "(\<forall>cd. solve_single_chain K cls neutral = Some cd \<longrightarrow>
       cd \<in> set (search_space K) \<and>
       \<bar>neutral - (backbone_mass K cls + chain_mass K (fst cd) (snd cd))\<bar> \<le> tolerance K \<and>
       (\<forall>p\<in>set (search_space K). residual K cls neutral cd \<le> residual K cls neutral p))
   \<and> (solve_single_chain K cls neutral = None) =
       (\<forall>p\<in>set (search_space K). tolerance K < residual K cls neutral p)
   \<and> (num_chain d = Some 1 \<longrightarrow>
       resolve_chains (ctx\<lparr>ranking_model := any_model\<rparr>) d f = resolve_chains ctx d f)
   \<and> (num_chain d = Some 1 \<and> neutral_mass_of ctx f = neutral_mass_of ctx g \<longrightarrow>
       resolve_chains ctx d f = resolve_chains ctx d g)
   \<and> (num_chain d = Some 1 \<and> source d \<noteq> Invalid \<and> predicted_class d = Some cls \<longrightarrow>
       resolve_chains ctx d f =
         [map_option (\<lambda>cd. \<lparr>composition = [cd], rank_confidence = None\<rparr>)
            (solve_single_chain (constants ctx) cls (neutral_mass_of ctx f)), None, None])"
proof -
  let ?res = "residual K cls neutral"
  obtain p0 ps where sp: "search_space K = p0 # ps"
    by (cases "search_space K") (auto simp: search_space_def)
  let ?b = "closest_pair ?res p0 ps"
  have mem: "?b \<in> set (search_space K)" using closest_pair_mem [of ?res p0 ps] sp by simp
  have least: "\<And>p. p \<in> set (search_space K) \<Longrightarrow> ?res ?b \<le> ?res p"
    using closest_pair_min [of _ p0 ps ?res] sp by simp
  have A: "\<forall>cd. solve_single_chain K cls neutral = Some cd \<longrightarrow>
       cd \<in> set (search_space K) \<and>
       \<bar>neutral - (backbone_mass K cls + chain_mass K (fst cd) (snd cd))\<bar> \<le> tolerance K \<and>
       (\<forall>p\<in>set (search_space K). ?res cd \<le> ?res p)"
    using mem least by (auto simp: solve_single_chain_def sp Let_def residual_def split: if_splits)
  have "(solve_single_chain K cls neutral = None) = (tolerance K < ?res ?b)"
    by (auto simp: solve_single_chain_def sp Let_def)
  also have "\<dots> = (\<forall>p\<in>set (search_space K). tolerance K < ?res p)"
    using mem least by (meson less_le_trans)
  finally have B: "(solve_single_chain K cls neutral = None) =
       (\<forall>p\<in>set (search_space K). tolerance K < ?res p)" .
  have C: "num_chain d = Some 1 \<longrightarrow>
       resolve_chains (ctx\<lparr>ranking_model := any_model\<rparr>) d f = resolve_chains ctx d f"
    by (simp add: resolve_chains_def split: decision_source.splits option.splits)
  have D: "num_chain d = Some 1 \<and> neutral_mass_of ctx f = neutral_mass_of ctx g \<longrightarrow>
       resolve_chains ctx d f = resolve_chains ctx d g"
    by (simp add: resolve_chains_def split: decision_source.splits option.splits)
  have E: "num_chain d = Some 1 \<and> source d \<noteq> Invalid \<and> predicted_class d = Some cls \<longrightarrow>
       resolve_chains ctx d f =
         [map_option (\<lambda>cd. \<lparr>composition = [cd], rank_confidence = None\<rparr>)
            (solve_single_chain (constants ctx) cls (neutral_mass_of ctx f)), None, None]"
    by (simp add: resolve_chains_def split: decision_source.splits option.splits)
  from A B C D E show ?thesis by blast
qed

theorem solve_single_chain_mass_balance_witness:
  "solve_single_chain example_constants ''LPC'' 297.1341 = Some (3, 1)
   \<and> \<bar>297.1341 - (backbone_mass example_constants ''LPC'' + chain_mass example_constants 3 1)\<bar>
       \<le> tolerance example_constants
   \<and> residual example_constants ''LPC'' 297.1341 (3, 1) \<le> residual example_constants ''LPC'' 297.1341 (2, 0)"
proof -
  have ev: "solve_single_chain example_constants ''LPC'' 297.1341 = Some (3, 1)" by code_simp
  have mem: "(2, 0) \<in> set (search_space example_constants)" by code_simp
  from solve_single_chain_mass_balance [of example_constants "''LPC''" "297.1341"] ev mem
  show ?thesis by auto
qed




text \<open>The same for a class that the table does not hold.\<close>

lemma unknown_class_example:
  "adduct dark_feature \<in> set (known_adducts example_context)
   \<and> classify example_context dark_feature = Inl UnknownClassError
   \<and> ranks (annotate_row example_context (dark_feature, Some 0.9)) = [None, None, None]"
  by code_simp

end
